theory Spec2Isabelle
  imports Complex_Main
begin

section \<open>Strings and exceptions\<close>

text \<open>
  Python strings are modelled as \<^typ>\<open>string\<close>; the model covers ASCII text, where
  \<^verbatim>\<open>str.lower\<close> changes exactly the letters A to Z. Floats are modelled as
  \<^typ>\<open>real\<close>: the delays computed below are products and powers, without rounding.
\<close>

definition lower_char :: "char \<Rightarrow> char" where
  "lower_char c =
     (case map_of (zip ''ABCDEFGHIJKLMNOPQRSTUVWXYZ'' ''abcdefghijklmnopqrstuvwxyz'') c of
        None \<Rightarrow> c | Some l \<Rightarrow> l)"

definition lower :: "string \<Rightarrow> string" where
  "lower s = map lower_char s"

fun startswith :: "string \<Rightarrow> string \<Rightarrow> bool" where
  "startswith s [] = True"
| "startswith [] (p # ps) = False"
| "startswith (c # cs) (p # ps) = (c = p \<and> startswith cs ps)"

text \<open>\<open>contains sub s\<close> is Python's \<^verbatim>\<open>sub in s\<close> on strings.\<close>

fun contains :: "string \<Rightarrow> string \<Rightarrow> bool" where
  "contains sub [] = (sub = [])"
| "contains sub (c # cs) = (startswith (c # cs) sub \<or> contains sub cs)"

text \<open>\<open>any_keyword kws s\<close> is \<^verbatim>\<open>any(keyword in s for keyword in kws)\<close>.\<close>

definition any_keyword :: "string list \<Rightarrow> string \<Rightarrow> bool" where
  "any_keyword kws s = list_ex (\<lambda>keyword. contains keyword s) kws"

text \<open>Decimal rendering of an integer, as an f-string prints it.\<close>

fun str_nat :: "nat \<Rightarrow> string" where
  "str_nat n =
     (if n < 10 then [''0123456789'' ! n]
      else str_nat (n div 10) @ [''0123456789'' ! (n mod 10)])"

definition str_int :: "int \<Rightarrow> string" where
  "str_int i = (if i < 0 then CHR ''-'' # str_nat (nat (- i)) else str_nat (nat i))"

text \<open>
  The exception classes the orchestrator code raises or tests for. \<open>Exception\<close> stands
  for any class that is none of the others.
\<close>

datatype exc_class =
    Exception | RetryableError | NonRetryableError
  | JinaRetryableError | JinaNonRetryableError | ModelRetry
  | ConnectionError | TimeoutError | ValueError | PermissionError | TypeError
  | UnboundLocalError

datatype exn = Exn (exc_class: exc_class) (str: string)

text \<open>
  An operation handed to a retry wrapper is an effectful callable; it is modelled by the
  outcome of each of its successive calls: \<open>func k\<close> is what call number \<open>k\<close> (from 0)
  does, \<open>Inl e\<close> when it raises \<open>e\<close> and \<open>Inr v\<close> when it returns \<open>v\<close>.
\<close>

type_synonym 'a operation = "nat \<Rightarrow> exn + 'a"

text \<open>
  What a run of a retry wrapper did: how it ended, the delays passed to
  \<^verbatim>\<open>asyncio.sleep\<close> in order, and how many times the operation was called.
\<close>

record 'a retry_run =
  outcome :: "exn + 'a"
  sleeps :: "real list"
  attempts :: nat

section \<open>routes.py: retry\_with\_backoff\<close>

text \<open>
  \<^verbatim>\<open>raise last_exception\<close>: with \<^verbatim>\<open>last_exception = None\<close> (the loop body never
  ran) Python raises a TypeError instead.
\<close>

definition raise_last :: "exn option \<Rightarrow> exn" where
  "raise_last last_exception =
     (case last_exception of
        None \<Rightarrow> Exn TypeError ''exceptions must derive from BaseException''
      | Some e \<Rightarrow> e)"

text \<open>
  The loop \<^verbatim>\<open>for attempt in range(max_retries + 1)\<close>, entered at \<open>attempt\<close> with the
  delays slept so far.
\<close>

function retry_with_backoff_loop ::
  "'a operation \<Rightarrow> int \<Rightarrow> real \<Rightarrow> real \<Rightarrow> real \<Rightarrow> nat \<Rightarrow> exn option \<Rightarrow> real list
     \<Rightarrow> 'a retry_run" where
  "retry_with_backoff_loop func max_retries base_delay max_delay backoff_factor
       attempt last_exception slept =
     (if int attempt < max_retries + 1 then
        (case func attempt of
           Inr v \<Rightarrow> \<lparr>outcome = Inr v, sleeps = slept, attempts = attempt + 1\<rparr>
         | Inl e \<Rightarrow>
             if exc_class e = NonRetryableError then
               \<lparr>outcome = Inl e, sleeps = slept, attempts = attempt + 1\<rparr>
             else if int attempt = max_retries then
               \<lparr>outcome = Inl (raise_last (Some e)), sleeps = slept, attempts = attempt + 1\<rparr>
             else
               retry_with_backoff_loop func max_retries base_delay max_delay backoff_factor
                 (attempt + 1) (Some e)
                 (slept @ [min (base_delay * backoff_factor ^ attempt) max_delay]))
      else \<lparr>outcome = Inl (raise_last last_exception), sleeps = slept, attempts = attempt\<rparr>)"
  by pat_completeness auto
termination
  by (relation "measure (\<lambda>(func, max_retries, base_delay, max_delay, backoff_factor,
        attempt, last_exception, slept). nat (max_retries + 1 - int attempt))") auto

definition retry_with_backoff ::
  "'a operation \<Rightarrow> int \<Rightarrow> real \<Rightarrow> real \<Rightarrow> real \<Rightarrow> 'a retry_run" where
  "retry_with_backoff func max_retries base_delay max_delay backoff_factor =
     retry_with_backoff_loop func max_retries base_delay max_delay backoff_factor 0 None []"

section \<open>jina\_ai\_service.py: retry\_jina\_request\<close>

definition jina_retry_keywords :: "string list" where
  "jina_retry_keywords =
     [''timeout'', ''connection'', ''network'', ''temporary'', ''429'', ''502'', ''503'', ''504'']"

function retry_jina_request_loop ::
  "'a operation \<Rightarrow> int \<Rightarrow> real \<Rightarrow> real \<Rightarrow> real \<Rightarrow> nat \<Rightarrow> exn option \<Rightarrow> real list
     \<Rightarrow> 'a retry_run" where
  "retry_jina_request_loop func max_retries base_delay max_delay backoff_factor
       attempt last_exception slept =
     (if int attempt < max_retries + 1 then
        (case func attempt of
           Inr v \<Rightarrow> \<lparr>outcome = Inr v, sleeps = slept, attempts = attempt + 1\<rparr>
         | Inl e \<Rightarrow>
             if exc_class e = JinaNonRetryableError then
               \<lparr>outcome = Inl e, sleeps = slept, attempts = attempt + 1\<rparr>
             else if any_keyword jina_retry_keywords (lower (str e))
                     \<and> int attempt < max_retries then
               retry_jina_request_loop func max_retries base_delay max_delay backoff_factor
                 (attempt + 1) (Some e)
                 (slept @ [min (base_delay * backoff_factor ^ attempt) max_delay])
             else
               \<lparr>outcome = Inl (Exn JinaNonRetryableError (''Jina AI request failed: '' @ str e)),
                sleeps = slept, attempts = attempt + 1\<rparr>)
      else
        \<lparr>outcome = Inl (Exn JinaNonRetryableError
           (''Max retries exceeded: '' @ (case last_exception of None \<Rightarrow> ''None'' | Some e \<Rightarrow> str e))),
         sleeps = slept, attempts = attempt\<rparr>)"
  by pat_completeness auto
termination
  by (relation "measure (\<lambda>(func, max_retries, base_delay, max_delay, backoff_factor,
        attempt, last_exception, slept). nat (max_retries + 1 - int attempt))") auto

definition retry_jina_request ::
  "'a operation \<Rightarrow> int \<Rightarrow> real \<Rightarrow> real \<Rightarrow> real \<Rightarrow> 'a retry_run" where
  "retry_jina_request func max_retries base_delay max_delay backoff_factor =
     retry_jina_request_loop func max_retries base_delay max_delay backoff_factor 0 None []"

section \<open>agent.py: MetatronAgent.\_execute\_with\_retry\<close>

text \<open>
  ToolExecutionMetadata as \<^verbatim>\<open>_create_tool_metadata\<close> fills it. The fields
  \<^verbatim>\<open>execution_time\<close> and \<^verbatim>\<open>timestamp\<close> are clock readings and are left out.
\<close>

record tool_execution_metadata =
  tool_name :: string
  success :: bool
  retry_count :: int
  source :: string

definition create_tool_metadata :: "string \<Rightarrow> bool \<Rightarrow> int \<Rightarrow> tool_execution_metadata" where
  "create_tool_metadata name ok n =
     \<lparr>tool_name = name, success = ok, retry_count = n, source = ''orchestrator''\<rparr>"

text \<open>
  A run of \<^verbatim>\<open>_execute_with_retry\<close>: \<open>ended = Inr None\<close> is the implicit
  \<^verbatim>\<open>return None\<close> after a loop that never ran, \<open>Inr (Some (result, metadata))\<close> the
  normal return. \<open>built_metadata\<close> is the metadata object the run constructed last; on
  the failure path it is a local variable that the raised error does not carry.
\<close>

record 'a execute_run =
  ended :: "exn + ('a \<times> tool_execution_metadata) option"
  delays :: "real list"
  calls :: nat
  built_metadata :: "tool_execution_metadata option"

function execute_with_retry_loop ::
  "'a operation \<Rightarrow> string \<Rightarrow> int \<Rightarrow> real \<Rightarrow> nat \<Rightarrow> real list \<Rightarrow> 'a execute_run" where
  "execute_with_retry_loop operation name max_retries retry_delay retry_count0 slept =
     (if int retry_count0 \<le> max_retries then
        (case operation retry_count0 of
           Inr result \<Rightarrow>
             (let metadata = create_tool_metadata name True (int retry_count0)
              in \<lparr>ended = Inr (Some (result, metadata)), delays = slept,
                  calls = retry_count0 + 1, built_metadata = Some metadata\<rparr>)
         | Inl e \<Rightarrow>
             (let retry_count1 = retry_count0 + 1 in
              if int retry_count1 \<le> max_retries then
                execute_with_retry_loop operation name max_retries retry_delay retry_count1
                  (slept @ [retry_delay * real retry_count1])
              else
                \<lparr>ended = Inl (Exn ModelRetry
                    (''Tool '' @ name @ '' failed after '' @ str_int max_retries
                       @ '' retries: '' @ str e)),
                 delays = slept, calls = retry_count1,
                 built_metadata = Some (create_tool_metadata name False (int retry_count1 - 1))\<rparr>))
      else \<lparr>ended = Inr None, delays = slept, calls = retry_count0, built_metadata = None\<rparr>)"
  by pat_completeness auto
termination
  by (relation "measure (\<lambda>(operation, name, max_retries, retry_delay, retry_count0, slept).
        nat (max_retries + 1 - int retry_count0))") auto

definition execute_with_retry :: "'a operation \<Rightarrow> string \<Rightarrow> int \<Rightarrow> real \<Rightarrow> 'a execute_run" where
  "execute_with_retry operation name max_retries retry_delay =
     execute_with_retry_loop operation name max_retries retry_delay 0 []"

section \<open>agent.py: MetatronAgent.run\<close>

text \<open>
  OrchestratorOutput (models.py) with the fields the session reads or sets;
  \<^verbatim>\<open>rich_content\<close> and the entries of \<^verbatim>\<open>tools_used\<close> are kept as text.
\<close>

record orchestrator_output =
  response :: string
  rich_content :: "string option"
  tools_used :: "string list"
  confidence :: "real option"
  reasoning :: "string option"
  content_type :: string
  requires_canvas :: bool
  streaming_enabled :: bool

text \<open>
  The three kinds of object \<^verbatim>\<open>MetatronAgent.run\<close> returns; each has an
  \<^verbatim>\<open>output\<close> attribute.
\<close>

datatype agent_result =
    AgentRunResult orchestrator_output
  | RateLimitResult orchestrator_output
  | MockResult orchestrator_output

fun output_of :: "agent_result \<Rightarrow> orchestrator_output" where
  "output_of (AgentRunResult out) = out"
| "output_of (RateLimitResult out) = out"
| "output_of (MockResult out) = out"

text \<open>
  The two emoji of the rate-limit text (a traffic light, an alarm clock) are written as
  their UTF-8 bytes.
\<close>

definition rate_limit_response :: string where
  "rate_limit_response =
     [CHR 0xF0, CHR 0x9F, CHR 0x9A, CHR 0xA6] @ '' **Rate Limit Reached**'' @ [CHR 0x0A, CHR 0x0A]
     @ ''I've hit the API rate limit. Please wait a moment and try again.'' @ [CHR 0x0A, CHR 0x0A]
     @ ''**What happened:** The Gemini 2.5 Pro API has usage limits that help ensure fair access.''
     @ [CHR 0x0A, CHR 0x0A]
     @ ''**Solutions:**'' @ [CHR 0x0A]
     @ ''- Wait 1 minute and try again'' @ [CHR 0x0A]
     @ ''- Your request will work perfectly once the limit resets'' @ [CHR 0x0A, CHR 0x0A]
     @ [CHR 0xE2, CHR 0x8F, CHR 0xB0] @ '' *Tip: Try again in about 60 seconds*''"

definition rate_limit_output :: orchestrator_output where
  "rate_limit_output =
     \<lparr>response = rate_limit_response, rich_content = None, tools_used = [],
      confidence = Some 1.0, reasoning = Some ''Rate limit protection activated'',
      content_type = ''text'', requires_canvas = False, streaming_enabled = False\<rparr>"

definition fallback_output :: "exn \<Rightarrow> orchestrator_output" where
  "fallback_output e =
     \<lparr>response = ''I apologize, but I encountered an error processing your request: '' @ str e,
      rich_content = None, tools_used = [],
      confidence = Some 0.0, reasoning = Some ''Error occurred during processing'',
      content_type = ''text'', requires_canvas = False, streaming_enabled = False\<rparr>"

text \<open>
  The language-model call \<^verbatim>\<open>self.agent.run(message, deps=deps)\<close> is an operation in the
  sense above. \<open>run_inner\<close> is the inner \<^verbatim>\<open>try\<close> of \<^verbatim>\<open>run\<close>: it makes call number 0
  and either returns a result or re-raises. Its rate-limit branch holds the statement
  \<^verbatim>\<open>from .models import OrchestratorOutput\<close>, which makes \<^verbatim>\<open>OrchestratorOutput\<close> a local
  variable of the whole method, bound only once that branch has run; the third component
  tells whether it is bound when \<open>run_inner\<close> ends. The second component counts the calls
  made to the language model. The agent is taken as initialised, as
  \<^verbatim>\<open>create_metatron_agent\<close> leaves it.
\<close>

definition run_inner ::
  "orchestrator_output operation \<Rightarrow> (exn + agent_result) \<times> nat \<times> bool" where
  "run_inner llm =
     (case llm 0 of
        Inr out \<Rightarrow> (Inr (AgentRunResult out), 1, False)
      | Inl e \<Rightarrow>
          if contains ''429'' (str e) \<or> contains ''RESOURCE_EXHAUSTED'' (str e)
          then (Inr (RateLimitResult rate_limit_output), 1, True)
          else (Inl e, 1, False))"

text \<open>
  What reading the unbound local variable raises, in the wording of Python 3.11 and later
  (earlier versions say "local variable 'OrchestratorOutput' referenced before
  assignment").
\<close>

definition unbound_local_error :: exn where
  "unbound_local_error =
     Exn UnboundLocalError
       ''cannot access local variable 'OrchestratorOutput' where it is not associated with a value''"

text \<open>
  \<open>run\<close> adds the outer handler, which builds the fallback result with
  \<^verbatim>\<open>OrchestratorOutput(...)\<close>: where the local variable is unbound, the handler itself
  raises, and that exception leaves \<open>run\<close>.
\<close>

definition run :: "orchestrator_output operation \<Rightarrow> (exn + agent_result) \<times> nat" where
  "run llm =
     (case run_inner llm of
        (Inr result, n, bound) \<Rightarrow> (Inr result, n)
      | (Inl e, n, bound) \<Rightarrow>
          if bound then (Inr (MockResult (fallback_output e)), n)
          else (Inl unbound_local_error, n))"

section \<open>routes.py: error responses and the chat endpoint\<close>

fun class_name :: "exc_class \<Rightarrow> string" where
  "class_name Exception = ''Exception''"
| "class_name RetryableError = ''RetryableError''"
| "class_name NonRetryableError = ''NonRetryableError''"
| "class_name JinaRetryableError = ''JinaRetryableError''"
| "class_name JinaNonRetryableError = ''JinaNonRetryableError''"
| "class_name ModelRetry = ''ModelRetry''"
| "class_name ConnectionError = ''ConnectionError''"
| "class_name TimeoutError = ''TimeoutError''"
| "class_name ValueError = ''ValueError''"
| "class_name PermissionError = ''PermissionError''"
| "class_name TypeError = ''TypeError''"
| "class_name UnboundLocalError = ''UnboundLocalError''"

text \<open>
  The \<^verbatim>\<open>error\<close> entry of the dictionary \<^verbatim>\<open>create_error_response\<close> returns, without
  its \<^verbatim>\<open>timestamp\<close> (a clock reading).
\<close>

record error_response =
  error_type :: string
  category :: string
  message_text :: string
  user_message :: string
  error_context :: string

definition create_error_response :: "exn \<Rightarrow> string \<Rightarrow> error_response" where
  "create_error_response error ctx =
     (let error_message = str error;
          (um, cat) =
            (if exc_class error = ConnectionError \<or> exc_class error = TimeoutError then
               (''I'm having trouble connecting to external services. Please try again in a moment.'',
                ''connection_error'')
             else if exc_class error = ValueError then
               (''There was an issue with the request format. Please check your input and try again.'',
                ''validation_error'')
             else if exc_class error = PermissionError then
               (''I don't have permission to access the requested resource.'',
                ''permission_error'')
             else if contains ''rate limit'' (lower error_message) then
               (''I'm currently experiencing high demand. Please wait a moment and try again.'',
                ''rate_limit_error'')
             else if contains ''api key'' (lower error_message)
                     \<or> contains ''authentication'' (lower error_message) then
               (''There's an authentication issue with external services. Please contact support.'',
                ''auth_error'')
             else
               (''I encountered an unexpected issue. Please try again or contact support if the problem persists.'',
                ''unknown_error''))
      in \<lparr>error_type = class_name (exc_class error), category = cat,
          message_text = error_message, user_message = um, error_context = ctx\<rparr>)"

definition chat_retry_keywords :: "string list" where
  "chat_retry_keywords = [''timeout'', ''connection'', ''network'', ''temporary'']"

text \<open>
  \<^verbatim>\<open>run_chat_with_retry\<close>, given what its call of \<^verbatim>\<open>agent.run\<close> does: an exception is
  re-raised as RetryableError or as NonRetryableError by the keywords in its text. The
  steps before the call (fetching the agent, building the dependencies, the prefix for deep
  research) do not enter the handler and are taken to succeed.
\<close>

definition run_chat_with_retry :: "exn + agent_result \<Rightarrow> exn + agent_result" where
  "run_chat_with_retry agent_run =
     (case agent_run of
        Inr result \<Rightarrow> Inr result
      | Inl e \<Rightarrow>
          if any_keyword chat_retry_keywords (lower (str e))
          then Inl (Exn RetryableError (''Temporary error: '' @ str e))
          else Inl (Exn NonRetryableError (''Permanent error: '' @ str e)))"

text \<open>
  The retried part of the chat endpoint:
  \<^verbatim>\<open>retry_with_backoff(run_chat_with_retry, max_retries=2, base_delay=1.0, max_delay=10.0)\<close>.
\<close>

definition chat_attempt :: "agent_result operation \<Rightarrow> agent_result operation" where
  "chat_attempt agent k = run_chat_with_retry (agent k)"

definition chat_retry :: "agent_result operation \<Rightarrow> agent_result retry_run" where
  "chat_retry agent = retry_with_backoff (chat_attempt agent) 2 1.0 10.0 2.0"

text \<open>
  The items the generator yields, in order: JSON objects of type \<^verbatim>\<open>status\<close>,
  \<^verbatim>\<open>response\<close> or \<^verbatim>\<open>error\<close>, each sent as a \<^verbatim>\<open>data:\<close> line, and the line
  \<^verbatim>\<open>data: [DONE]\<close>. The response object carries the response text and the clock's
  timestamp; its other entries are constants.
\<close>

datatype stream_item =
    Status string nat
  | Response string string
  | Error string nat
  | DONE

text \<open>The \<^verbatim>\<open>type\<close> entry of an item's JSON object; the sentinel is not an object.\<close>

fun item_type :: "stream_item \<Rightarrow> string option" where
  "item_type (Status m p) = Some ''status''"
| "item_type (Response r t) = Some ''response''"
| "item_type (Error m p) = Some ''error''"
| "item_type DONE = None"

text \<open>
  What an endpoint answers: a ChatResponse (its response text and tool list; workspace
  and timestamp are copied from the request and the clock), an HTTPException with status
  code and detail, or, from the streaming endpoint, the stream of a generator.
\<close>

datatype http_result =
    ChatResponse string "string list"
  | HTTPException nat string
  | StreamingResponse "stream_item list"

definition chat_with_orchestrator :: "agent_result operation \<Rightarrow> http_result" where
  "chat_with_orchestrator agent =
     (case outcome (chat_retry agent) of
        Inr result \<Rightarrow> ChatResponse (response (output_of result)) (tools_used (output_of result))
      | Inl e \<Rightarrow>
          if exc_class e = NonRetryableError then
            HTTPException 400 (user_message (create_error_response e ''chat_processing''))
          else if exc_class e = RetryableError then
            HTTPException 503
              ''I'm experiencing temporary difficulties. Please try again in a moment.''
          else
            HTTPException 500 (user_message (create_error_response e ''chat_processing'')))"

section \<open>routes.py: generate\_stream\<close>

text \<open>The two status texts begin with an emoji (a robot, a check mark), written as UTF-8 bytes.\<close>

definition initial_status :: stream_item where
  "initial_status =
     Status ([CHR 0xF0, CHR 0x9F, CHR 0xA4, CHR 0x96] @ '' Initializing AI agent...'') 10"

definition formatting_status :: stream_item where
  "formatting_status =
     Status ([CHR 0xE2, CHR 0x9C, CHR 0x85] @ '' Processing complete! Formatting response...'') 90"

text \<open>
  \<open>generate_stream agent_run now\<close>: \<open>agent_run\<close> is what the call of \<^verbatim>\<open>agent.run\<close> does,
  \<open>now\<close> the timestamp read for the response object.
\<close>

definition generate_stream :: "exn + agent_result \<Rightarrow> string \<Rightarrow> stream_item list" where
  "generate_stream agent_run now =
     initial_status #
     (case agent_run of
        Inr result \<Rightarrow> [formatting_status, Response (response (output_of result)) now, DONE]
      | Inl e \<Rightarrow> [Error (''Processing failed: '' @ str e) 100, DONE])"

text \<open>
  A streaming session of the orchestrator: the endpoint's agent is a MetatronAgent, so
  \<^verbatim>\<open>agent.run\<close> is \<open>run\<close> above, fed by the language-model call.
\<close>

definition session_stream :: "orchestrator_output operation \<Rightarrow> string \<Rightarrow> stream_item list" where
  "session_stream llm now = generate_stream (fst (run llm)) now"

text \<open>
  The streaming endpoint: \<open>setup\<close> is what the steps before the generator do (fetching
  the agent, building the dependencies); when they raise, the endpoint's own handler
  answers with an HTTPException and no stream is sent.
\<close>

definition chat_with_orchestrator_stream ::
  "exn + unit \<Rightarrow> orchestrator_output operation \<Rightarrow> string \<Rightarrow> http_result" where
  "chat_with_orchestrator_stream setup llm now =
     (case setup of
        Inl e \<Rightarrow> HTTPException 500 (''Streaming failed: '' @ str e)
      | Inr ready \<Rightarrow> StreamingResponse (session_stream llm now))"

text \<open>Operations that raise on every call.\<close>

definition failing :: "(nat \<Rightarrow> exn) \<Rightarrow> 'a operation" where
  "failing es k = Inl (es k)"

definition always_raises :: "exn \<Rightarrow> 'a operation" where
  "always_raises e k = Inl e"

text \<open>
  The agent of the two endpoints is a MetatronAgent: its call number \<open>k\<close> of
  \<^verbatim>\<open>agent.run\<close> does what \<open>run\<close> makes of the language model's call number \<open>k\<close>.
\<close>

definition later_calls :: "'a operation \<Rightarrow> nat \<Rightarrow> 'a operation" where
  "later_calls llm k j = llm (k + j)"

definition metatron_agent :: "orchestrator_output operation \<Rightarrow> agent_result operation" where
  "metatron_agent llm k = fst (run (later_calls llm k))"

text \<open>How many items of a stream are JSON objects of a given type.\<close>

definition count_type :: "string \<Rightarrow> stream_item list \<Rightarrow> nat" where
  "count_type t items = length (filter (\<lambda>i. item_type i = Some t) items)"

section \<open>jina\_ai\_service.py: RateLimiter\<close>

text \<open>
  \<^verbatim>\<open>self.requests\<close> is a \<^verbatim>\<open>defaultdict(list)\<close>: a function from keys to lists of
  timestamps, the empty list where nothing was stored. Timestamps are readings of
  \<^verbatim>\<open>time.time()\<close>.
\<close>

record rate_limiter =
  max_requests :: int
  time_window :: int
  requests :: "string \<Rightarrow> real list"

definition RateLimiter :: "int \<Rightarrow> int \<Rightarrow> rate_limiter" where
  "RateLimiter mr tw = \<lparr>max_requests = mr, time_window = tw, requests = (\<lambda>key. [])\<rparr>"

text \<open>
  \<open>acquire self key now\<close>, where \<open>now\<close> is the clock reading of the call. It returns the
  limiter as the call leaves it and either the time slept (0 without a sleep) or the
  ValueError of \<^verbatim>\<open>min\<close> on an empty list. The timestamp appended is \<open>now\<close>, read before
  the sleep.
\<close>

definition acquire :: "rate_limiter \<Rightarrow> string \<Rightarrow> real \<Rightarrow> rate_limiter \<times> (exn + real)" where
  "acquire self key now =
     (let kept = filter (\<lambda>req_time. now - req_time < real_of_int (time_window self))
                   (requests self key);
          cleaned = self\<lparr>requests := (requests self)(key := kept)\<rparr>;
          recorded = self\<lparr>requests := (requests self)(key := kept @ [now])\<rparr>
      in if max_requests self \<le> int (length kept) then
           (if kept = [] then (cleaned, Inl (Exn ValueError ''min() arg is an empty sequence''))
            else
              (let oldest_request = Min (set kept);
                   wait_time = real_of_int (time_window self) - (now - oldest_request)
               in (recorded, Inr (if 0 < wait_time then wait_time else 0))))
         else (recorded, Inr 0))"

text \<open>
  One caller issuing calls in sequence: each call is a key and the time \<open>gap\<close> the caller
  lets pass before it; the clock then advances by the time the call sleeps. The result is
  the limiter and the clock at the return of the last call, or the error that ended the
  sequence.
\<close>

fun acquire_seq ::
  "rate_limiter \<Rightarrow> real \<Rightarrow> (string \<times> real) list \<Rightarrow> rate_limiter \<times> (exn + real)" where
  "acquire_seq self clock [] = (self, Inr clock)"
| "acquire_seq self clock ((key, gap) # rest) =
     (case acquire self key (clock + gap) of
        (self', Inl e) \<Rightarrow> (self', Inl e)
      | (self', Inr wait_time) \<Rightarrow> acquire_seq self' (clock + gap + wait_time) rest)"

text \<open>The timestamps of a key that the purge of \<open>acquire\<close> would keep at time \<open>t\<close>.\<close>

definition in_window :: "rate_limiter \<Rightarrow> string \<Rightarrow> real \<Rightarrow> real list" where
  "in_window self key t =
     filter (\<lambda>req_time. t - req_time < real_of_int (time_window self)) (requests self key)"

definition nonneg_gaps :: "(string \<times> real) list \<Rightarrow> bool" where
  "nonneg_gaps cs = list_all (\<lambda>(key, gap). 0 \<le> gap) cs"

text \<open>At time \<open>t\<close> no key has more timestamps in the window than \<open>max_requests\<close>.\<close>

definition within_limit :: "rate_limiter \<Rightarrow> real \<Rightarrow> bool" where
  "within_limit self t = (\<forall>key. int (length (in_window self key t)) \<le> max_requests self)"

section \<open>content\_detection\_tool.py: ContentDetectionTool.detect\_content\_intent\<close>

text \<open>
  The method uses two functions of Python's \<^verbatim>\<open>re\<close> module, both with the flag
  \<^verbatim>\<open>re.IGNORECASE\<close>. They are parameters of the model: \<open>re_search re p s\<close> tells whether
  \<^verbatim>\<open>re.search(p, s, re.IGNORECASE)\<close> finds a match, and \<open>re_findall re p s\<close> is the list
  \<^verbatim>\<open>re.findall(p, s, re.IGNORECASE)\<close>, whose elements are strings, or tuples of strings
  for a pattern with several groups. A tuple is given by its last component and the ones
  before it.
\<close>

datatype findall_match = MatchStr string | MatchTuple "string list" string

record 'p re_module =
  re_search :: "'p \<Rightarrow> string \<Rightarrow> bool"
  re_findall :: "'p \<Rightarrow> string \<Rightarrow> findall_match list"

text \<open>An entry of \<^verbatim>\<open>self.content_patterns\<close>: the trigger patterns and the entity patterns.\<close>

record 'p content_config =
  patterns :: "'p list"
  entity_patterns :: "'p list"

text \<open>An element of \<^verbatim>\<open>detection_results\<close>.\<close>

record detection =
  d_content_type :: string
  d_confidence :: int
  d_entities :: "string list"
  pattern_matches :: int

text \<open>
  The dictionary the method returns (as JSON text). \<open>all_detections\<close> and
  \<open>message_length\<close> are present on the normal path only, \<open>error_text\<close> on the error path
  only; \<open>timestamp\<close> is the reading of \<^verbatim>\<open>datetime.now()\<close>.
\<close>

record detection_result =
  has_visual_content :: bool
  primary_content_type :: string
  r_confidence :: int
  r_entities :: "string list"
  all_detections :: "detection list option"
  error_text :: "string option"
  timestamp :: string
  message_length :: "nat option"

text \<open>The loop over the trigger patterns, on the pair \<open>(pattern_matches, confidence)\<close>.\<close>

fun check_patterns :: "'p re_module \<Rightarrow> 'p list \<Rightarrow> string \<Rightarrow> int \<times> int \<Rightarrow> int \<times> int" where
  "check_patterns re [] message_lower acc = acc"
| "check_patterns re (pattern # ps) message_lower (matched, conf) =
     (if re_search re pattern message_lower
      then check_patterns re ps message_lower (matched + 1, conf + 20)
      else check_patterns re ps message_lower (matched, conf))"

text \<open>\<^verbatim>\<open>match if isinstance(match, str) else match[-1]\<close>\<close>

fun entity_of :: "findall_match \<Rightarrow> string" where
  "entity_of (MatchStr s) = s"
| "entity_of (MatchTuple before l) = l"

text \<open>The loop over the entity patterns, on the pair \<open>(detected_entities, confidence)\<close>.\<close>

fun extract_entities ::
  "'p re_module \<Rightarrow> 'p list \<Rightarrow> string \<Rightarrow> string list \<times> int \<Rightarrow> string list \<times> int" where
  "extract_entities re [] msg acc = acc"
| "extract_entities re (entity_pattern # ps) msg (detected_entities, conf) =
     (let matches = re_findall re entity_pattern msg
      in if matches \<noteq> []
         then extract_entities re ps msg (detected_entities @ map entity_of matches, conf + 15)
         else extract_entities re ps msg (detected_entities, conf))"

text \<open>The loop over the content types, on \<open>detection_results\<close>.\<close>

fun analyze_types ::
  "'p re_module \<Rightarrow> (string \<times> 'p content_config) list \<Rightarrow> string \<Rightarrow> string
     \<Rightarrow> detection list \<Rightarrow> detection list" where
  "analyze_types re [] msg message_lower detection_results = detection_results"
| "analyze_types re ((ctype, config) # rest) msg message_lower detection_results =
     (let (matched, conf1) = check_patterns re (patterns config) message_lower (0, 0);
          (detected_entities, conf2) =
             extract_entities re (entity_patterns config) msg ([], conf1)
      in if 0 < matched
         then analyze_types re rest msg message_lower
                (detection_results @
                 [\<lparr>d_content_type = ctype, d_confidence = min conf2 100,
                   d_entities = take 3 detected_entities, pattern_matches = matched\<rparr>])
         else analyze_types re rest msg message_lower detection_results)"

text \<open>
  \<^verbatim>\<open>detection_results.sort(key=lambda x: x['confidence'], reverse=True)\<close>: a stable sort
  by descending confidence.
\<close>

definition sort_detections :: "detection list \<Rightarrow> detection list" where
  "sort_detections ds = sort_key (\<lambda>x. - d_confidence x) ds"

definition primary_detection :: "detection list \<Rightarrow> detection option" where
  "primary_detection sorted_results =
     (case sorted_results of
        [] \<Rightarrow> None
      | d # _ \<Rightarrow> if 40 \<le> d_confidence d then Some d else None)"

text \<open>
  The argument \<^verbatim>\<open>message\<close>: a string, or \<^verbatim>\<open>None\<close> as the malformed input, on which
  the first statement of the body (\<^verbatim>\<open>message[:50]\<close>) raises a TypeError.
\<close>

datatype message_arg = Str string | NoneValue

text \<open>The body of the \<^verbatim>\<open>try\<close>, with \<open>now\<close> the timestamp read near its end.\<close>

definition detect_body ::
  "'p re_module \<Rightarrow> (string \<times> 'p content_config) list \<Rightarrow> string \<Rightarrow> message_arg
     \<Rightarrow> exn + detection_result" where
  "detect_body re content_patterns now message =
     (case message of
        NoneValue \<Rightarrow> Inl (Exn TypeError
                      ([CHR 0x27] @ ''NoneType'' @ [CHR 0x27] @ '' object is not subscriptable''))
      | Str msg \<Rightarrow>
          (let message_lower = lower msg;
               detection_results =
                 sort_detections (analyze_types re content_patterns msg message_lower []);
               primary = primary_detection detection_results
           in Inr \<lparr>has_visual_content = (primary \<noteq> None),
                   primary_content_type =
                     (case primary of Some d \<Rightarrow> d_content_type d | None \<Rightarrow> ''text''),
                   r_confidence = (case primary of Some d \<Rightarrow> d_confidence d | None \<Rightarrow> 0),
                   r_entities = (case primary of Some d \<Rightarrow> d_entities d | None \<Rightarrow> []),
                   all_detections = Some detection_results,
                   error_text = None,
                   timestamp = now,
                   message_length = Some (length msg)\<rparr>))"

text \<open>The method: the body, and the handler that turns any exception into the error result.\<close>

definition detect_content_intent ::
  "'p re_module \<Rightarrow> (string \<times> 'p content_config) list \<Rightarrow> string \<Rightarrow> message_arg
     \<Rightarrow> detection_result" where
  "detect_content_intent re content_patterns now message =
     (case detect_body re content_patterns now message of
        Inr result \<Rightarrow> result
      | Inl e \<Rightarrow>
          \<lparr>has_visual_content = False, primary_content_type = ''text'', r_confidence = 0,
           r_entities = [], all_detections = None, error_text = Some (str e),
           timestamp = now, message_length = None\<rparr>)"

subsection \<open>The scoring rule in the words of the specification\<close>

text \<open>
  These follow the specification's description of the classifier, not the code; the
  theorem of claim C3 compares the loops above with them. \<open>trigger_count\<close> is the number
  of trigger patterns that match the lowercased message, \<open>entity_hits\<close> the number of
  entity patterns with at least one match in the message, \<open>found_entities\<close> what these
  matches capture, in order.
\<close>

definition trigger_count :: "'p re_module \<Rightarrow> 'p content_config \<Rightarrow> string \<Rightarrow> int" where
  "trigger_count re config msg =
     int (length (filter (\<lambda>p. re_search re p (lower msg)) (patterns config)))"

definition entity_hits :: "'p re_module \<Rightarrow> 'p content_config \<Rightarrow> string \<Rightarrow> int" where
  "entity_hits re config msg =
     int (length (filter (\<lambda>p. re_findall re p msg \<noteq> []) (entity_patterns config)))"

definition found_entities :: "'p re_module \<Rightarrow> 'p content_config \<Rightarrow> string \<Rightarrow> string list" where
  "found_entities re config msg =
     concat (map (\<lambda>p. map entity_of (re_findall re p msg)) (entity_patterns config))"

definition claimed_detection ::
  "'p re_module \<Rightarrow> string \<Rightarrow> string \<times> 'p content_config \<Rightarrow> detection" where
  "claimed_detection re msg entry =
     \<lparr>d_content_type = fst entry,
      d_confidence = min (20 * trigger_count re (snd entry) msg
                          + 15 * entity_hits re (snd entry) msg) 100,
      d_entities = take 3 (found_entities re (snd entry) msg),
      pattern_matches = trigger_count re (snd entry) msg\<rparr>"

definition claimed_detections ::
  "'p re_module \<Rightarrow> (string \<times> 'p content_config) list \<Rightarrow> string \<Rightarrow> detection list" where
  "claimed_detections re table msg =
     map (claimed_detection re msg)
       (filter (\<lambda>entry. 0 < trigger_count re (snd entry) msg) table)"

section \<open>The regular expressions of the pattern table\<close>

text \<open>
  A model of Python's \<^verbatim>\<open>re\<close> for the constructs the table uses: literals, the dot,
  character sets, \<^verbatim>\<open>\b\<close>, sequence, alternative, greedy repetition and capturing groups
  (numbered as Python numbers them, by their opening parenthesis). Matching is by
  backtracking: \<open>re_match r st\<close> lists the states in which a match of \<open>r\<close> begun in \<open>st\<close>
  can end, in the order in which the backtracking matcher finds them. A state is the
  character before the position, the text from the position on, and the groups captured
  so far (the latest capture of a group first). Every comparison of letters ignores
  case, as under \<^verbatim>\<open>re.IGNORECASE\<close>.
\<close>

datatype regex =
    Lit char
  | AnyChar
  | CharSet bool string
  | WordBoundary
  | Seq regex regex
  | Alt regex regex
  | Repeat regex nat "nat option"
  | Group nat regex
  | Empty

type_synonym cursor = "char option \<times> string"
type_synonym match_state = "cursor \<times> (nat \<times> string) list"

definition is_word_char :: "char \<Rightarrow> bool" where
  "is_word_char c =
     (c \<in> set ''abcdefghijklmnopqrstuvwxyzABCDEFGHIJKLMNOPQRSTUVWXYZ0123456789_'')"

text \<open>\<^verbatim>\<open>\b\<close>: exactly one of the characters before and after the position is a word character.\<close>

fun at_boundary :: "cursor \<Rightarrow> bool" where
  "at_boundary (None, []) = False"
| "at_boundary (None, c # cs) = is_word_char c"
| "at_boundary (Some p, []) = is_word_char p"
| "at_boundary (Some p, c # cs) = (is_word_char p \<noteq> is_word_char c)"

fun step_char :: "(char \<Rightarrow> bool) \<Rightarrow> match_state \<Rightarrow> match_state list" where
  "step_char ok ((prev, []), caps) = []"
| "step_char ok ((prev, c # cs), caps) = (if ok c then [((Some c, cs), caps)] else [])"

definition remaining :: "match_state \<Rightarrow> nat" where
  "remaining st = length (snd (fst st))"

text \<open>
  Greedy repetition between \<open>lo\<close> and \<open>hi\<close> times: one more round of the body is tried
  before stopping. A round that consumes nothing is not repeated (no pattern of the table
  has one).
\<close>

function repeat_ends ::
  "(match_state \<Rightarrow> match_state list) \<Rightarrow> nat \<Rightarrow> nat option \<Rightarrow> match_state \<Rightarrow> match_state list" where
  "repeat_ends body lo hi st =
     (if hi = Some 0 then []
      else concat (map (\<lambda>st'. repeat_ends body (lo - 1) (map_option (\<lambda>h. h - 1) hi) st')
                    (filter (\<lambda>st'. remaining st' < remaining st) (body st))))
     @ (if lo = 0 then [st] else [])"
  by pat_completeness auto
termination
  by (relation "measure (\<lambda>(body, lo, hi, st). remaining st)") auto

text \<open>The text between two positions of one string.\<close>

definition consumed :: "cursor \<Rightarrow> cursor \<Rightarrow> string" where
  "consumed cur cur' = take (length (snd cur) - length (snd cur')) (snd cur)"

fun re_match :: "regex \<Rightarrow> match_state \<Rightarrow> match_state list" where
  "re_match (Lit c) st = step_char (\<lambda>x. lower_char x = lower_char c) st"
| "re_match AnyChar st = step_char (\<lambda>x. x \<noteq> CHR 0x0A) st"
| "re_match (CharSet negated members) st =
     step_char (\<lambda>x. (lower_char x \<in> set (map lower_char members)) \<noteq> negated) st"
| "re_match WordBoundary st = (if at_boundary (fst st) then [st] else [])"
| "re_match (Seq a b) st = concat (map (re_match b) (re_match a st))"
| "re_match (Alt a b) st = re_match a st @ re_match b st"
| "re_match (Repeat r lo hi) st = repeat_ends (re_match r) lo hi st"
| "re_match (Group n r) st =
     map (\<lambda>st'. (fst st', (n, consumed (fst st) (fst st')) # snd st')) (re_match r st)"
| "re_match Empty st = [st]"

text \<open>\<^verbatim>\<open>re.search\<close>: is there a match beginning at this position or at a later one.\<close>

fun search_from :: "regex \<Rightarrow> cursor \<Rightarrow> bool" where
  "search_from r (prev, []) = (re_match r ((prev, []), []) \<noteq> [])"
| "search_from r (prev, c # cs) =
     (re_match r ((prev, c # cs), []) \<noteq> [] \<or> search_from r (Some c, cs))"

fun ngroups :: "regex \<Rightarrow> nat" where
  "ngroups (Seq a b) = ngroups a + ngroups b"
| "ngroups (Alt a b) = ngroups a + ngroups b"
| "ngroups (Repeat r lo hi) = ngroups r"
| "ngroups (Group n r) = 1 + ngroups r"
| "ngroups r = 0"

text \<open>
  What \<^verbatim>\<open>re.findall\<close> lists for one match: the matched text for a pattern without a
  group, the text of the group for a pattern with one group, the tuple of the groups'
  texts otherwise; a group that took no part counts as the empty string.
\<close>

definition group_text :: "(nat \<times> string) list \<Rightarrow> nat \<Rightarrow> string" where
  "group_text caps n = (case map_of caps n of None \<Rightarrow> [] | Some s \<Rightarrow> s)"

definition findall_item :: "nat \<Rightarrow> string \<Rightarrow> (nat \<times> string) list \<Rightarrow> findall_match" where
  "findall_item groups whole caps =
     (if groups = 0 then MatchStr whole
      else if groups = 1 then MatchStr (group_text caps 1)
      else MatchTuple (map (group_text caps) [1..<groups]) (group_text caps groups))"

text \<open>
  \<^verbatim>\<open>re.findall\<close>: the leftmost match from the position on, taken as the backtracking
  matcher finds it first, then the matches after its end; after an empty match the scan
  moves on by one character.
\<close>

function findall_from :: "regex \<Rightarrow> nat \<Rightarrow> cursor \<Rightarrow> findall_match list" where
  "findall_from r groups (prev, rest) =
     (case re_match r ((prev, rest), []) of
        [] \<Rightarrow> (case rest of [] \<Rightarrow> [] | c # cs \<Rightarrow> findall_from r groups (Some c, cs))
      | (cur', caps) # others \<Rightarrow>
          findall_item groups (consumed (prev, rest) cur') caps #
          (if length (snd cur') < length rest then findall_from r groups cur'
           else (case rest of [] \<Rightarrow> [] | c # cs \<Rightarrow> findall_from r groups (Some c, cs))))"
  by pat_completeness auto
termination
  by (relation "measure (\<lambda>(r, groups, cur). length (snd cur))") auto

text \<open>The two functions of the module, as the classifier calls them.\<close>

definition python_re :: "regex re_module" where
  "python_re =
     \<lparr>re_search = (\<lambda>pattern s. search_from pattern (None, s)),
      re_findall = (\<lambda>pattern s. findall_from pattern (ngroups pattern) (None, s))\<rparr>"

subsection \<open>Writing patterns\<close>

definition lit :: "string \<Rightarrow> regex" where
  "lit s = foldr (\<lambda>c r. Seq (Lit c) r) s Empty"

definition cat :: "regex list \<Rightarrow> regex" where
  "cat rs = foldr Seq rs Empty"

fun alt :: "regex list \<Rightarrow> regex" where
  "alt [] = CharSet False []"
| "alt [r] = r"
| "alt (r # rs) = Alt r (alt rs)"

definition star :: "regex \<Rightarrow> regex" where
  "star r = Repeat r 0 None"

definition plus :: "regex \<Rightarrow> regex" where
  "plus r = Repeat r 1 None"

definition opt :: "regex \<Rightarrow> regex" where
  "opt r = Repeat r 0 (Some 1)"

definition digit :: regex where
  "digit = CharSet False ''0123456789''"

text \<open>\<^verbatim>\<open>\s\<close>: the ASCII characters that Python counts as whitespace in a string.\<close>

definition whitespace :: regex where
  "whitespace =
     CharSet False [CHR '' '', CHR 0x09, CHR 0x0A, CHR 0x0B, CHR 0x0C, CHR 0x0D,
                    CHR 0x1C, CHR 0x1D, CHR 0x1E, CHR 0x1F]"

definition upper_letter :: regex where
  "upper_letter = CharSet False ''ABCDEFGHIJKLMNOPQRSTUVWXYZ''"

definition lower_letter :: regex where
  "lower_letter = CharSet False ''abcdefghijklmnopqrstuvwxyz''"

definition not_sentence_end :: regex where
  "not_sentence_end = CharSet True ''.!?''"

text \<open>\<^verbatim>\<open>\b(a1|a2|...)\b\<close>, the shape of every trigger pattern.\<close>

definition word_group :: "regex list \<Rightarrow> regex" where
  "word_group alternatives = cat [WordBoundary, Group 1 (alt alternatives), WordBoundary]"

text \<open>\<^verbatim>\<open>x.*y\<close>\<close>

definition then_later :: "string \<Rightarrow> string \<Rightarrow> regex" where
  "then_later x y = cat [lit x, star AnyChar, lit y]"

section \<open>content\_detection\_tool.py: the pattern table\<close>

text \<open>
  \<^verbatim>\<open>self.content_patterns\<close> as \<^verbatim>\<open>__init__\<close> sets it, in the order of the dictionary;
  each pattern is written with the constructors above, after its Python text. The degree
  sign of the last pattern is written as its two UTF-8 bytes.
\<close>

definition word_chars :: regex where
  "word_chars = CharSet False ''abcdefghijklmnopqrstuvwxyzABCDEFGHIJKLMNOPQRSTUVWXYZ0123456789_-''"

definition degree_sign :: regex where
  "degree_sign = lit [CHR 0xC2, CHR 0xB0]"

definition chart_config :: "regex content_config" where
  \<open>chart_config =
     \<lparr>patterns =
        [\<comment> \<open>\<^verbatim>\<open>\b(chart|graph|plot|visualize|visualization)\b\<close>\<close>
         word_group [lit ''chart'', lit ''graph'', lit ''plot'', lit ''visualize'',
                     lit ''visualization''],
         \<comment> \<open>\<^verbatim>\<open>\b(stock price|stock chart|price chart)\b\<close>\<close>
         word_group [lit ''stock price'', lit ''stock chart'', lit ''price chart''],
         \<comment> \<open>\<^verbatim>\<open>\b(show.*data|display.*data)\b\<close>\<close>
         word_group [then_later ''show'' ''data'', then_later ''display'' ''data''],
         \<comment> \<open>\<^verbatim>\<open>\b(trend|trends|trending)\b\<close>\<close>
         word_group [lit ''trend'', lit ''trends'', lit ''trending''],
         \<comment> \<open>\<^verbatim>\<open>\b(analytics|statistics|stats)\b\<close>\<close>
         word_group [lit ''analytics'', lit ''statistics'', lit ''stats''],
         \<comment> \<open>\<^verbatim>\<open>\b(compare.*data|comparison)\b\<close>\<close>
         word_group [then_later ''compare'' ''data'', lit ''comparison''],
         \<comment> \<open>\<^verbatim>\<open>\b(financial.*data|market.*data)\b\<close>\<close>
         word_group [then_later ''financial'' ''data'', then_later ''market'' ''data''],
         \<comment> \<open>\<^verbatim>\<open>\b(crypto.*price|cryptocurrency)\b\<close>\<close>
         word_group [then_later ''crypto'' ''price'', lit ''cryptocurrency'']],
      entity_patterns =
        [\<comment> \<open>\<^verbatim>\<open>\b([A-Z]{2,5})\b\<close> (the comment: Stock symbols)\<close>
         cat [WordBoundary, Group 1 (Repeat upper_letter 2 (Some 5)), WordBoundary],
         \<comment> \<open>\<^verbatim>\<open>\b(bitcoin|btc|ethereum|eth|crypto)\b\<close>\<close>
         word_group [lit ''bitcoin'', lit ''btc'', lit ''ethereum'', lit ''eth'', lit ''crypto''],
         \<comment> \<open>\<^verbatim>\<open>\b(\d+%|\$\d+)\b\<close> (the comment: Percentages and prices)\<close>
         word_group [cat [plus digit, Lit (CHR ''%'')], cat [Lit (CHR ''$''), plus digit]]]\<rparr>\<close>

definition image_config :: "regex content_config" where
  \<open>image_config =
     \<lparr>patterns =
        [\<comment> \<open>\<^verbatim>\<open>\b(generate.*image|create.*image|make.*image)\b\<close>\<close>
         word_group [then_later ''generate'' ''image'', then_later ''create'' ''image'',
                     then_later ''make'' ''image''],
         \<comment> \<open>\<^verbatim>\<open>\b(show.*picture|display.*picture)\b\<close>\<close>
         word_group [then_later ''show'' ''picture'', then_later ''display'' ''picture''],
         \<comment> \<open>\<^verbatim>\<open>\b(photo|photograph|pic)\b\<close>\<close>
         word_group [lit ''photo'', lit ''photograph'', lit ''pic''],
         \<comment> \<open>\<^verbatim>\<open>\b(draw|sketch|illustrate)\b\<close>\<close>
         word_group [lit ''draw'', lit ''sketch'', lit ''illustrate''],
         \<comment> \<open>\<^verbatim>\<open>\b(visual.*representation)\b\<close>\<close>
         word_group [then_later ''visual'' ''representation''],
         \<comment> \<open>\<^verbatim>\<open>\b(image.*of|picture.*of)\b\<close>\<close>
         word_group [then_later ''image'' ''of'', then_later ''picture'' ''of'']],
      entity_patterns =
        [\<comment> \<open>\<^verbatim>\<open>\b(of\s+)([^.!?]+)\<close>\<close>
         cat [WordBoundary, Group 1 (cat [lit ''of'', plus whitespace]),
              Group 2 (plus not_sentence_end)],
         \<comment> \<open>\<^verbatim>\<open>\b(showing\s+)([^.!?]+)\<close>\<close>
         cat [WordBoundary, Group 1 (cat [lit ''showing'', plus whitespace]),
              Group 2 (plus not_sentence_end)]]\<rparr>\<close>

definition video_config :: "regex content_config" where
  \<open>video_config =
     \<lparr>patterns =
        [\<comment> \<open>\<^verbatim>\<open>\b(video|watch|youtube|play)\b\<close>\<close>
         word_group [lit ''video'', lit ''watch'', lit ''youtube'', lit ''play''],
         \<comment> \<open>\<^verbatim>\<open>\b(movie|film|clip)\b\<close>\<close>
         word_group [lit ''movie'', lit ''film'', lit ''clip''],
         \<comment> \<open>\<^verbatim>\<open>\b(tutorial|demo|demonstration)\b\<close>\<close>
         word_group [lit ''tutorial'', lit ''demo'', lit ''demonstration''],
         \<comment> \<open>\<^verbatim>\<open>\b(youtube\.com|youtu\.be)\b\<close>\<close>
         word_group [lit ''youtube.com'', lit ''youtu.be''],
         \<comment> \<open>\<^verbatim>\<open>\b(stream|streaming)\b\<close>\<close>
         word_group [lit ''stream'', lit ''streaming'']],
      entity_patterns =
        [\<comment> \<open>\<^verbatim>\<open>(https?://(?:www\.)?(?:youtube\.com/watch\?v=|youtu\.be/)[\w-]+)\<close>\<close>
         Group 1 (cat [lit ''http'', opt (Lit (CHR ''s'')), lit ''://'', opt (lit ''www.''),
                       alt [lit ''youtube.com/watch?v='', lit ''youtu.be/''],
                       plus word_chars]),
         \<comment> \<open>\<^verbatim>\<open>\b(tutorial.*on|demo.*of|video.*about)\s+([^.!?]+)\<close>\<close>
         cat [WordBoundary,
              Group 1 (alt [then_later ''tutorial'' ''on'', then_later ''demo'' ''of'',
                            then_later ''video'' ''about'']),
              plus whitespace, Group 2 (plus not_sentence_end)]]\<rparr>\<close>

definition map_config :: "regex content_config" where
  \<open>map_config =
     \<lparr>patterns =
        [\<comment> \<open>\<^verbatim>\<open>\b(map|location|where.*is|directions)\b\<close>\<close>
         word_group [lit ''map'', lit ''location'', then_later ''where'' ''is'', lit ''directions''],
         \<comment> \<open>\<^verbatim>\<open>\b(address|coordinates|latitude|longitude)\b\<close>\<close>
         word_group [lit ''address'', lit ''coordinates'', lit ''latitude'', lit ''longitude''],
         \<comment> \<open>\<^verbatim>\<open>\b(route|navigation|distance)\b\<close>\<close>
         word_group [lit ''route'', lit ''navigation'', lit ''distance''],
         \<comment> \<open>\<^verbatim>\<open>\b(city|country|state|region)\b\<close>\<close>
         word_group [lit ''city'', lit ''country'', lit ''state'', lit ''region''],
         \<comment> \<open>\<^verbatim>\<open>\b(near.*me|nearby|around)\b\<close>\<close>
         word_group [then_later ''near'' ''me'', lit ''nearby'', lit ''around''],
         \<comment> \<open>\<^verbatim>\<open>\b(travel.*to|go.*to)\b\<close>\<close>
         word_group [then_later ''travel'' ''to'', then_later ''go'' ''to'']],
      entity_patterns =
        [\<comment> \<open>\<^verbatim>\<open>\b(in\s+)([A-Z][a-z]+(?:\s+[A-Z][a-z]+)*)\<close>\<close>
         cat [WordBoundary, Group 1 (cat [lit ''in'', plus whitespace]),
              Group 2 (cat [upper_letter, plus lower_letter,
                            star (cat [plus whitespace, upper_letter, plus lower_letter])])],
         \<comment> \<open>\<^verbatim>\<open>\b(\d+\.?\d*D?\s*[NS],?\s*\d+\.?\d*D?\s*[EW])\<close>, with D the degree sign\<close>
         cat [WordBoundary,
              Group 1 (cat [plus digit, opt (Lit (CHR ''.'')), star digit, opt degree_sign,
                            star whitespace, CharSet False ''NS'', opt (Lit (CHR '','')),
                            star whitespace,
                            plus digit, opt (Lit (CHR ''.'')), star digit, opt degree_sign,
                            star whitespace, CharSet False ''EW''])]]\<rparr>\<close>

definition content_patterns :: "(string \<times> regex content_config) list" where
  "content_patterns =
     [(''chart'', chart_config), (''image'', image_config),
      (''video'', video_config), (''map'', map_config)]"

text \<open>
  \<^verbatim>\<open>ContentDetectionTool().detect_content_intent(deps, message)\<close> at the clock reading
  \<open>now\<close>.
\<close>

definition content_detection_tool :: "string \<Rightarrow> message_arg \<Rightarrow> detection_result" where
  "content_detection_tool now message = detect_content_intent python_re content_patterns now message"

section \<open>The retry wrappers when every attempt fails\<close>

declare retry_with_backoff_loop.simps [simp del]
declare retry_jina_request_loop.simps [simp del]
declare execute_with_retry_loop.simps [simp del]

text \<open>
  The three loops, entered at attempt \<open>a\<close> of an operation that raises \<open>es k\<close> at call
  \<open>k\<close>: the delays still to come, the number of calls and the error at the end.
\<close>

lemma retry_with_backoff_loop_all_fail:
  assumes "\<And>k. k \<le> m \<Longrightarrow> exc_class (es k) \<noteq> NonRetryableError"
    and "a \<le> m"
  shows "retry_with_backoff_loop (failing es) (int m) b md f a lst slept =
           \<lparr>outcome = Inl (es m),
            sleeps = slept @ map (\<lambda>k. min (b * f ^ k) md) [a..<m],
            attempts = m + 1\<rparr>"
  using assms(2)
proof (induction "m - a" arbitrary: a lst slept)
  case 0
  then have "a = m" by simp
  then show ?case
    using assms(1)[of m]
    by (subst retry_with_backoff_loop.simps) (simp add: failing_def raise_last_def)
next
  case (Suc d)
  then have lt: "a < m" by simp
  have d: "d = m - (a + 1)" "a + 1 \<le> m" using Suc.hyps(2) by simp_all
  note IH = Suc.hyps(1)[OF d]
  show ?case
    using lt assms(1)[of a] IH
    by (subst retry_with_backoff_loop.simps) (simp add: failing_def upt_conv_Cons)
qed

lemma retry_jina_request_loop_all_fail:
  assumes "\<And>k. k \<le> m \<Longrightarrow> exc_class (es k) \<noteq> JinaNonRetryableError"
    and "\<And>k. k < m \<Longrightarrow> any_keyword jina_retry_keywords (lower (str (es k)))"
    and "a \<le> m"
  shows "retry_jina_request_loop (failing es) (int m) b md f a lst slept =
           \<lparr>outcome = Inl (Exn JinaNonRetryableError (''Jina AI request failed: '' @ str (es m))),
            sleeps = slept @ map (\<lambda>k. min (b * f ^ k) md) [a..<m],
            attempts = m + 1\<rparr>"
  using assms(3)
proof (induction "m - a" arbitrary: a lst slept)
  case 0
  then have "a = m" by simp
  then show ?case
    using assms(1)[of m]
    by (subst retry_jina_request_loop.simps) (simp add: failing_def)
next
  case (Suc d)
  then have lt: "a < m" by simp
  have d: "d = m - (a + 1)" "a + 1 \<le> m" using Suc.hyps(2) by simp_all
  note IH = Suc.hyps(1)[OF d]
  show ?case
    using lt assms(1)[of a] assms(2)[of a] IH
    by (subst retry_jina_request_loop.simps) (simp add: failing_def upt_conv_Cons)
qed

lemma execute_with_retry_loop_all_fail:
  assumes "a \<le> m"
  shows "execute_with_retry_loop (failing es) name (int m) rd a slept =
           \<lparr>ended = Inl (Exn ModelRetry (''Tool '' @ name @ '' failed after '' @ str_int (int m)
                         @ '' retries: '' @ str (es m))),
            delays = slept @ map (\<lambda>k. rd * real (k + 1)) [a..<m],
            calls = m + 1,
            built_metadata = Some (create_tool_metadata name False (int m))\<rparr>"
  using assms
proof (induction "m - a" arbitrary: a slept)
  case 0
  then have "a = m" by simp
  then show ?case
    by (subst execute_with_retry_loop.simps) (simp add: failing_def Let_def)
next
  case (Suc d)
  then have lt: "a < m" by simp
  have d: "d = m - (a + 1)" "a + 1 \<le> m" using Suc.hyps(2) by simp_all
  note IH = Suc.hyps(1)[OF d]
  show ?case
    using lt IH
    by (subst execute_with_retry_loop.simps) (simp add: failing_def upt_conv_Cons Let_def)
qed


lemma failing_const: "failing (\<lambda>k. e) = always_raises e"
  by (rule ext) (simp add: failing_def always_raises_def)

lemma retry_with_backoff_all_fail:
  assumes "0 \<le> max_retries"
    and "\<And>k. k \<le> nat max_retries \<Longrightarrow> exc_class (es k) \<noteq> NonRetryableError"
  shows "retry_with_backoff (failing es) max_retries b md f =
           \<lparr>outcome = Inl (es (nat max_retries)),
            sleeps = map (\<lambda>k. min (b * f ^ k) md) [0..<nat max_retries],
            attempts = nat max_retries + 1\<rparr>"
  using retry_with_backoff_loop_all_fail[of "nat max_retries" es 0 b md f None "[]"] assms
  by (simp add: retry_with_backoff_def)

lemma retry_jina_request_all_fail:
  assumes "0 \<le> max_retries"
    and "\<And>k. k \<le> nat max_retries \<Longrightarrow> exc_class (es k) \<noteq> JinaNonRetryableError"
    and "\<And>k. k < nat max_retries \<Longrightarrow> any_keyword jina_retry_keywords (lower (str (es k)))"
  shows "retry_jina_request (failing es) max_retries b md f =
           \<lparr>outcome = Inl (Exn JinaNonRetryableError
                         (''Jina AI request failed: '' @ str (es (nat max_retries)))),
            sleeps = map (\<lambda>k. min (b * f ^ k) md) [0..<nat max_retries],
            attempts = nat max_retries + 1\<rparr>"
  using retry_jina_request_loop_all_fail[of "nat max_retries" es 0 b md f None "[]"] assms
  by (simp add: retry_jina_request_def)

lemma execute_with_retry_all_fail:
  assumes "0 \<le> max_retries"
  shows "execute_with_retry (failing es) name max_retries rd =
           \<lparr>ended = Inl (Exn ModelRetry (''Tool '' @ name @ '' failed after ''
                         @ str_int max_retries @ '' retries: '' @ str (es (nat max_retries)))),
            delays = map (\<lambda>k. rd * real (k + 1)) [0..<nat max_retries],
            calls = nat max_retries + 1,
            built_metadata = Some (create_tool_metadata name False max_retries)\<rparr>"
  using execute_with_retry_loop_all_fail[of 0 "nat max_retries" es name rd "[]"] assms
  by (simp add: execute_with_retry_def)

text \<open>The delay before retry number \<open>N\<close> in the two wrappers with a backoff factor.\<close>

lemma retry_with_backoff_nth_delay:
  assumes "0 \<le> max_retries"
    and "\<And>k. k \<le> nat max_retries \<Longrightarrow> exc_class (es k) \<noteq> NonRetryableError"
    and "1 \<le> N" and "N \<le> nat max_retries"
  shows "sleeps (retry_with_backoff (failing es) max_retries 1 60 2) ! (N - 1) = min (1 * 2 ^ (N - 1)) 60"
proof -
  have "N - 1 < nat max_retries" using assms by linarith
  then show ?thesis using assms by (simp add: retry_with_backoff_all_fail)
qed

lemma retry_jina_request_nth_delay:
  assumes "0 \<le> max_retries"
    and "\<And>k. k \<le> nat max_retries \<Longrightarrow> exc_class (es k) \<noteq> JinaNonRetryableError"
    and "\<And>k. k < nat max_retries \<Longrightarrow> any_keyword jina_retry_keywords (lower (str (es k)))"
    and "1 \<le> N" and "N \<le> nat max_retries"
  shows "sleeps (retry_jina_request (failing es) max_retries 1 60 2) ! (N - 1) = min (1 * 2 ^ (N - 1)) 60"
proof -
  have "N - 1 < nat max_retries" using assms by linarith
  then show ?thesis using assms by (simp add: retry_jina_request_all_fail)
qed

lemma execute_with_retry_nth_delay:
  assumes "0 \<le> max_retries" and "1 \<le> N" and "N \<le> nat max_retries"
  shows "delays (execute_with_retry (failing es) name max_retries rd) ! (N - 1) = rd * real N"
proof -
  have "N - 1 < nat max_retries" using assms by linarith
  then show ?thesis using assms by (simp add: execute_with_retry_all_fail)
qed

text \<open>
  Claim C1 (backoff growth). With base delay 1, factor 2 and cap 60 the claim has the delay
  before retry \<open>N\<close> equal to \<open>min (1 * 2 ^ (N - 1)) 60\<close>, and 3 delayed retries (4 attempts)
  for \<open>max_retries = 3\<close>. \<^verbatim>\<open>retry_with_backoff\<close> and \<^verbatim>\<open>retry_jina_request\<close> do so
  (the three lemmas above, and the last conjunct here). \<^verbatim>\<open>_execute_with_retry\<close>, whose
  sleep is commented as exponential backoff, sleeps \<^verbatim>\<open>retry_delay * retry_count\<close>: for
  an operation that always raises, with \<open>max_retries = 3\<close> and \<open>retry_delay = 1\<close>, it makes
  4 calls and sleeps 1, 2 and 3 seconds, so the delay before the third retry is 3 and not 4.
\<close>

theorem C1_execute_with_retry_delays:
  "delays (execute_with_retry (always_raises (Exn Exception ''boom'') :: string operation)
             ''deep_research'' 3 1) = [1, 2, 3]
   \<and> calls (execute_with_retry (always_raises (Exn Exception ''boom'') :: string operation)
             ''deep_research'' 3 1) = 4
   \<and> delays (execute_with_retry (always_raises (Exn Exception ''boom'') :: string operation)
             ''deep_research'' 3 1) ! (3 - 1) \<noteq> min (1 * 2 ^ (3 - 1)) 60
   \<and> sleeps (retry_with_backoff (always_raises (Exn Exception ''boom'') :: string operation)
             3 1 60 2) = [1, 2, 4]"
  by (simp add: execute_with_retry_def execute_with_retry_loop.simps always_raises_def Let_def
        retry_with_backoff_def retry_with_backoff_loop.simps)

text \<open>
  Claim C5, as amended (terminal error after exhausted retries). For a non-negative
  \<open>max_retries\<close> and an operation that raises at every call:
  \<^verbatim>\<open>_execute_with_retry\<close> raises ModelRetry with the text
  "Tool NAME failed after MAX_RETRIES retries: TEXT OF THE LAST EXCEPTION", after building
  metadata with \<open>success = False\<close> and \<open>retry_count = max_retries\<close> (which the error does
  not carry), having made \<open>max_retries + 1\<close> calls;
  \<^verbatim>\<open>retry_with_backoff\<close>, when no exception is a NonRetryableError, raises the last
  exception itself; \<^verbatim>\<open>retry_jina_request\<close>, when every exception but the last has a
  retry keyword and none is a JinaNonRetryableError, raises JinaNonRetryableError with the
  text "Jina AI request failed: TEXT OF THE LAST EXCEPTION".
\<close>

theorem C5_terminal_errors:
  assumes "0 \<le> max_retries"
  shows "(ended (execute_with_retry (failing es :: 'a operation) name max_retries rd) =
            Inl (Exn ModelRetry (''Tool '' @ name @ '' failed after '' @ str_int max_retries
                   @ '' retries: '' @ str (es (nat max_retries))))
          \<and> built_metadata (execute_with_retry (failing es :: 'a operation) name max_retries rd) =
            Some (create_tool_metadata name False max_retries)
          \<and> calls (execute_with_retry (failing es :: 'a operation) name max_retries rd) = nat max_retries + 1)
       \<and> ((\<forall>k \<le> nat max_retries. exc_class (es k) \<noteq> NonRetryableError) \<longrightarrow>
            outcome (retry_with_backoff (failing es :: 'a operation) max_retries b md f) = Inl (es (nat max_retries))
            \<and> attempts (retry_with_backoff (failing es :: 'a operation) max_retries b md f) = nat max_retries + 1)
       \<and> ((\<forall>k \<le> nat max_retries. exc_class (es k) \<noteq> JinaNonRetryableError)
            \<and> (\<forall>k < nat max_retries. any_keyword jina_retry_keywords (lower (str (es k)))) \<longrightarrow>
            outcome (retry_jina_request (failing es :: 'a operation) max_retries b md f) =
              Inl (Exn JinaNonRetryableError (''Jina AI request failed: '' @ str (es (nat max_retries))))
            \<and> attempts (retry_jina_request (failing es :: 'a operation) max_retries b md f) = nat max_retries + 1)"
  using assms
  by (simp add: execute_with_retry_all_fail retry_with_backoff_all_fail retry_jina_request_all_fail)

text \<open>The amended claim C5 at an operation that always raises a ConnectionError, with two retries.\<close>

theorem C5_terminal_errors_witness:
  "(0::int) \<le> 2
   \<and> ended (execute_with_retry (always_raises (Exn ConnectionError ''connection reset'') :: string operation)
        ''deep_research'' 2 1) =
       Inl (Exn ModelRetry ''Tool deep_research failed after 2 retries: connection reset'')
   \<and> built_metadata (execute_with_retry (always_raises (Exn ConnectionError ''connection reset'') :: string operation)
        ''deep_research'' 2 1) =
       Some \<lparr>tool_name = ''deep_research'', success = False, retry_count = 2, source = ''orchestrator''\<rparr>
   \<and> outcome (retry_with_backoff (always_raises (Exn ConnectionError ''connection reset'') :: string operation)
        2 1 60 2) = Inl (Exn ConnectionError ''connection reset'')
   \<and> outcome (retry_jina_request (always_raises (Exn ConnectionError ''connection reset'') :: string operation)
        2 1 60 2) = Inl (Exn JinaNonRetryableError ''Jina AI request failed: connection reset'')"
  using C5_terminal_errors[where ?'a = string, of 2 "\<lambda>k. Exn ConnectionError ''connection reset''" "''deep_research''" 1 1 60 2]
  by (simp add: failing_const create_tool_metadata_def str_int_def any_keyword_def
        jina_retry_keywords_def lower_def lower_char_def)

text \<open>
  Claim C5 as stated fails on \<^verbatim>\<open>retry_with_backoff\<close>: after 4 failed attempts with
  \<open>max_retries = 3\<close> the error raised is the operation's own last exception, of the class and
  with the text the operation gave it; it names no operation and its text holds no count.
\<close>

theorem C5_retry_with_backoff_reraises:
  "outcome (retry_with_backoff (always_raises (Exn RetryableError ''boom'') :: string operation) 3 1 60 2)
     = Inl (Exn RetryableError ''boom'')
   \<and> attempts (retry_with_backoff (always_raises (Exn RetryableError ''boom'') :: string operation) 3 1 60 2) = 4
   \<and> \<not> contains (str_int 3) (str (Exn RetryableError ''boom''))"
  by (simp add: retry_with_backoff_def retry_with_backoff_loop.simps always_raises_def
        raise_last_def str_int_def)

section \<open>Errors without a retry keyword\<close>

lemma chat_retry_first_permanent:
  assumes "\<not> any_keyword chat_retry_keywords (lower (str e))" and "agent 0 = Inl e"
  shows "chat_retry agent =
           \<lparr>outcome = Inl (Exn NonRetryableError (''Permanent error: '' @ str e)),
            sleeps = [], attempts = 1\<rparr>"
  using assms
  by (simp add: chat_retry_def retry_with_backoff_def retry_with_backoff_loop.simps
        chat_attempt_def run_chat_with_retry_def)

text \<open>
  Claim C7, as amended (unknown errors in the chat endpoint). An exception of the agent
  call whose lowercased text holds none of the endpoint's keywords (timeout, connection,
  network, temporary) is re-raised as NonRetryableError "Permanent error: ..."; the retry
  wrapper makes one attempt and never sleeps, and the endpoint answers with status 400 and
  the mapped user message.
\<close>

theorem C7_unknown_errors_not_retried:
  "\<not> any_keyword chat_retry_keywords (lower (str e)) \<and> agent 0 = Inl e \<longrightarrow>
      attempts (chat_retry agent) = 1 \<and> sleeps (chat_retry agent) = []
      \<and> outcome (chat_retry agent) = Inl (Exn NonRetryableError (''Permanent error: '' @ str e))
      \<and> chat_with_orchestrator agent =
          HTTPException 400
            (user_message (create_error_response
               (Exn NonRetryableError (''Permanent error: '' @ str e)) ''chat_processing''))"
  by (auto simp add: chat_retry_first_permanent chat_with_orchestrator_def)

text \<open>The amended claim C7 at an exception with the text "Division by zero".\<close>

theorem C7_unknown_errors_not_retried_witness:
  "\<not> any_keyword chat_retry_keywords (lower (str (Exn Exception ''Division by zero'')))
   \<and> attempts (chat_retry (always_raises (Exn Exception ''Division by zero''))) = 1
   \<and> sleeps (chat_retry (always_raises (Exn Exception ''Division by zero''))) = []
   \<and> outcome (chat_retry (always_raises (Exn Exception ''Division by zero'')))
       = Inl (Exn NonRetryableError ''Permanent error: Division by zero'')
   \<and> chat_with_orchestrator (always_raises (Exn Exception ''Division by zero''))
       = HTTPException 400
           ''I encountered an unexpected issue. Please try again or contact support if the problem persists.''"
  using C7_unknown_errors_not_retried[of "Exn Exception ''Division by zero''"
          "always_raises (Exn Exception ''Division by zero'')"]
  by (simp add: always_raises_def any_keyword_def chat_retry_keywords_def
        lower_def lower_char_def create_error_response_def)

text \<open>
  Claim C7 as stated fails in the chat endpoint: an exception "boom" that
  \<^verbatim>\<open>create_error_response\<close> puts in the category of unknown errors is not retried. With 2
  retries configured, the endpoint stops after one attempt without a sleep.
\<close>

theorem C7_unknown_error_fails_at_once:
  "category (create_error_response (Exn Exception ''boom'') ''chat_processing'') = ''unknown_error''
   \<and> attempts (chat_retry (always_raises (Exn Exception ''boom''))) = 1
   \<and> sleeps (chat_retry (always_raises (Exn Exception ''boom''))) = []
   \<and> outcome (chat_retry (always_raises (Exn Exception ''boom'')))
       = Inl (Exn NonRetryableError ''Permanent error: boom'')"
  by (simp add: create_error_response_def lower_def lower_char_def
        chat_retry_def retry_with_backoff_def retry_with_backoff_loop.simps
        chat_attempt_def run_chat_with_retry_def always_raises_def any_keyword_def
        chat_retry_keywords_def)

text \<open>
  \<^verbatim>\<open>retry_jina_request\<close> decides by keywords alone and never tests for the class
  JinaRetryableError: an exception without one of its keywords ends the run at the first
  attempt, also one of that class, such as the "HTTP 500: ..." that
  \<^verbatim>\<open>_make_request\<close> raises for an HTTP status it does not list.
\<close>

lemma retry_jina_request_first_unknown:
  assumes "\<not> any_keyword jina_retry_keywords (lower (str e))" and "func 0 = Inl e"
    and "0 \<le> max_retries"
  shows "retry_jina_request func max_retries b md f =
           \<lparr>outcome = Inl (if exc_class e = JinaNonRetryableError then e
                           else Exn JinaNonRetryableError (''Jina AI request failed: '' @ str e)),
            sleeps = [], attempts = 1\<rparr>"
  using assms
  by (simp add: retry_jina_request_def retry_jina_request_loop.simps)

lemma retry_jina_request_http_500:
  "retry_jina_request (always_raises (Exn JinaRetryableError ''HTTP 500: Internal Server Error'')
       :: string operation) 3 1 30 2 =
     \<lparr>outcome = Inl (Exn JinaNonRetryableError
                     ''Jina AI request failed: HTTP 500: Internal Server Error''),
      sleeps = [], attempts = 1\<rparr>"
  by (simp add: retry_jina_request_def retry_jina_request_loop.simps always_raises_def
        any_keyword_def jina_retry_keywords_def lower_def lower_char_def)

section \<open>The session: rate limits, error texts and the stream\<close>

lemma run_rate_limited:
  assumes "llm 0 = Inl e"
    and "contains ''429'' (str e) \<or> contains ''RESOURCE_EXHAUSTED'' (str e)"
  shows "run llm = (Inr (RateLimitResult rate_limit_output), 1)"
  using assms by (auto simp add: run_def run_inner_def)

text \<open>
  Claim C8 (rate-limit protection). If the language-model call raises an error whose text
  holds "429" or "RESOURCE_EXHAUSTED", \<^verbatim>\<open>MetatronAgent.run\<close> has called the model once
  and returns, as a normal result, the fixed rate-limit response. The streaming session
  then sends its two status objects, one response object with that text and the sentinel,
  and no error object; the chat endpoint answers with that text after one attempt and no
  sleep.
\<close>

theorem C8_rate_limit_completes:
  assumes "llm 0 = Inl e"
    and "contains ''429'' (str e) \<or> contains ''RESOURCE_EXHAUSTED'' (str e)"
  shows "run llm = (Inr (RateLimitResult rate_limit_output), 1)
       \<and> session_stream llm now =
           [initial_status, formatting_status, Response rate_limit_response now, DONE]
       \<and> count_type ''error'' (session_stream llm now) = 0
       \<and> chat_with_orchestrator (metatron_agent llm) = ChatResponse rate_limit_response []
       \<and> attempts (chat_retry (metatron_agent llm)) = 1
       \<and> sleeps (chat_retry (metatron_agent llm)) = []"
proof -
  have r: "run llm = (Inr (RateLimitResult rate_limit_output), 1)"
    using assms by (rule run_rate_limited)
  have l: "later_calls llm 0 = llm"
    by (rule ext) (simp add: later_calls_def)
  have s: "session_stream llm now =
           [initial_status, formatting_status, Response rate_limit_response now, DONE]"
    by (simp add: session_stream_def generate_stream_def r rate_limit_output_def)
  have c: "chat_retry (metatron_agent llm) =
           \<lparr>outcome = Inr (RateLimitResult rate_limit_output), sleeps = [], attempts = 1\<rparr>"
    by (simp add: chat_retry_def retry_with_backoff_def retry_with_backoff_loop.simps
          chat_attempt_def metatron_agent_def run_chat_with_retry_def l r)
  show ?thesis
    by (simp add: r s c chat_with_orchestrator_def rate_limit_output_def count_type_def
          initial_status_def formatting_status_def)
qed

text \<open>Claim C8 at a model call that always raises "429 RESOURCE_EXHAUSTED: quota exceeded".\<close>

theorem C8_rate_limit_completes_witness:
  "contains ''429'' (str (Exn Exception ''429 RESOURCE_EXHAUSTED: quota exceeded''))
   \<and> run (always_raises (Exn Exception ''429 RESOURCE_EXHAUSTED: quota exceeded''))
       = (Inr (RateLimitResult rate_limit_output), 1)
   \<and> session_stream (always_raises (Exn Exception ''429 RESOURCE_EXHAUSTED: quota exceeded''))
        ''2025-01-01T00:00:00''
       = [initial_status, formatting_status,
          Response rate_limit_response ''2025-01-01T00:00:00'', DONE]
   \<and> attempts (chat_retry (metatron_agent
         (always_raises (Exn Exception ''429 RESOURCE_EXHAUSTED: quota exceeded'')))) = 1"
  using C8_rate_limit_completes[of "always_raises (Exn Exception ''429 RESOURCE_EXHAUSTED: quota exceeded'')"
          "Exn Exception ''429 RESOURCE_EXHAUSTED: quota exceeded''" "''2025-01-01T00:00:00''"]
  by (simp add: always_raises_def)

text \<open>
  A language-model error without a rate-limit signal: the outer handler of
  \<^verbatim>\<open>MetatronAgent.run\<close> reads the unbound local variable, so \<open>run\<close> raises an
  UnboundLocalError in place of returning its fallback result.
\<close>

lemma run_other_error:
  assumes "llm 0 = Inl e"
    and "\<not> contains ''429'' (str e)" and "\<not> contains ''RESOURCE_EXHAUSTED'' (str e)"
  shows "run llm = (Inl unbound_local_error, 1)"
  using assms by (simp add: run_def run_inner_def)

text \<open>
  Claim C10 (only the mapped user message is shown). The claim fails in the streaming
  endpoint. Where the language-model call raises an exception "boom" (no rate-limit
  signal), \<^verbatim>\<open>agent.run\<close> raises the UnboundLocalError, and the handler of
  \<^verbatim>\<open>generate_stream\<close> sends its text after "Processing failed: " in the error object; it
  does so with the text of whatever exception \<^verbatim>\<open>agent.run\<close> raises (second conjunct).
  Where the steps before the generator raise, the endpoint answers with status 500 and
  "Streaming failed: " followed by the exception's text. The last conjunct is the sibling
  path: the chat endpoint, for the same failing language-model call, answers with the
  mapped user message only.
\<close>

theorem C10_raw_exception_text_reaches_user:
  "session_stream (always_raises (Exn Exception ''boom'')) ''2025-01-01T00:00:00''
     = [initial_status,
        Error ''Processing failed: cannot access local variable 'OrchestratorOutput' where it is not associated with a value'' 100,
        DONE]
   \<and> generate_stream (Inl (Exn Exception ''boom'')) ''2025-01-01T00:00:00''
     = [initial_status, Error ''Processing failed: boom'' 100, DONE]
   \<and> chat_with_orchestrator_stream
        (Inl (Exn ValueError ''Gemini API key not found in configuration''))
        (always_raises (Exn Exception ''boom'')) ''2025-01-01T00:00:00''
     = HTTPException 500 ''Streaming failed: Gemini API key not found in configuration''
   \<and> chat_with_orchestrator (metatron_agent (always_raises (Exn Exception ''boom'')))
     = HTTPException 400
         ''I encountered an unexpected issue. Please try again or contact support if the problem persists.''"
  by (simp add: session_stream_def generate_stream_def run_def run_inner_def always_raises_def
        unbound_local_error_def chat_with_orchestrator_stream_def
        chat_with_orchestrator_def chat_retry_def retry_with_backoff_def
        retry_with_backoff_loop.simps chat_attempt_def metatron_agent_def later_calls_def
        run_chat_with_retry_def any_keyword_def chat_retry_keywords_def lower_def lower_char_def
        create_error_response_def)

text \<open>
  Claim C4, as amended (stream ordering and termination). Every stream of
  \<^verbatim>\<open>generate_stream\<close> starts with a status object, ends with the sentinel
  \<^verbatim>\<open>[DONE]\<close>, which occurs once, and holds no object of type \<^verbatim>\<open>complete\<close>. When
  \<^verbatim>\<open>agent.run\<close> returns, the stream holds exactly one object of type \<^verbatim>\<open>response\<close>,
  the last item before the sentinel, and no error object; when it raises, the stream holds
  no response object and exactly one error object, the last item before the sentinel.
\<close>

theorem C4_stream_shape:
  "item_type (hd (generate_stream agent_run now)) = Some ''status''
   \<and> last (generate_stream agent_run now) = DONE
   \<and> count_list (generate_stream agent_run now) DONE = 1
   \<and> count_type ''complete'' (generate_stream agent_run now) = 0
   \<and> count_type ''response'' (generate_stream (Inr result) now) = 1
   \<and> count_type ''error'' (generate_stream (Inr result) now) = 0
   \<and> last (butlast (generate_stream (Inr result) now)) = Response (response (output_of result)) now
   \<and> count_type ''response'' (generate_stream (Inl e) now) = 0
   \<and> count_type ''error'' (generate_stream (Inl e) now) = 1
   \<and> last (butlast (generate_stream (Inl e) now)) = Error (''Processing failed: '' @ str e) 100"
  by (cases agent_run)
     (simp_all add: generate_stream_def count_type_def initial_status_def formatting_status_def)

text \<open>
  Claim C4 as stated fails: a successful session does not end with a chunk of type
  \<^verbatim>\<open>complete\<close>. Its objects have the types status, status and response, then comes the
  sentinel.
\<close>

theorem C4_no_complete_chunk:
  "count_type ''complete''
     (generate_stream (Inr (AgentRunResult
        \<lparr>response = ''Hello'', rich_content = None, tools_used = [], confidence = None,
         reasoning = None, content_type = ''text'', requires_canvas = False,
         streaming_enabled = False\<rparr>)) ''2025-01-01T00:00:00'') = 0
   \<and> map item_type
     (generate_stream (Inr (AgentRunResult
        \<lparr>response = ''Hello'', rich_content = None, tools_used = [], confidence = None,
         reasoning = None, content_type = ''text'', requires_canvas = False,
         streaming_enabled = False\<rparr>)) ''2025-01-01T00:00:00'')
     = [Some ''status'', Some ''status'', Some ''response'', None]"
  by (simp add: generate_stream_def count_type_def initial_status_def formatting_status_def)

section \<open>The rate limiter\<close>

lemma length_filter_mono:
  assumes "\<And>x. x \<in> set xs \<Longrightarrow> P x \<Longrightarrow> Q x"
  shows "length (filter P xs) \<le> length (filter Q xs)"
  using assms by (induction xs) auto

lemma in_window_antitone:
  assumes "t \<le> t'"
  shows "length (in_window self key t') \<le> length (in_window self key t)"
  unfolding in_window_def using assms by (intro length_filter_mono) simp

lemma acquire_config:
  assumes "acquire self key now = (self', r)"
  shows "max_requests self' = max_requests self \<and> time_window self' = time_window self"
  using assms by (auto simp add: acquire_def Let_def split: if_splits)

lemma acquire_other_key:
  assumes "acquire self key now = (self', r)" and "k \<noteq> key"
  shows "requests self' k = requests self k"
  using assms by (auto simp add: acquire_def Let_def split: if_splits)

lemma acquire_same_key:
  assumes "acquire self key now = (self', Inr w)" and "t0 \<le> now"
    and "int (length (in_window self key t0)) \<le> max_requests self"
  shows "int (length (in_window self' key (now + w))) \<le> max_requests self"
proof -
  define W where "W = real_of_int (time_window self)"
  define kept where "kept = filter (\<lambda>req_time. now - req_time < W) (requests self key)"
  have kept_le: "length kept \<le> length (in_window self key t0)"
    using in_window_antitone[OF assms(2), of self key] by (simp add: kept_def in_window_def W_def)
  show ?thesis
  proof (cases "max_requests self \<le> int (length kept)")
    case False
    then have "self' = self\<lparr>requests := (requests self)(key := kept @ [now])\<rparr>" "w = 0"
      using assms(1) by (auto simp add: acquire_def Let_def kept_def W_def)
    then have "length (in_window self' key (now + w)) \<le> length kept + 1"
      by (simp add: in_window_def le_SucI)
    then show ?thesis using False by linarith
  next
    case True
    then have ne: "kept \<noteq> []"
      using assms(1) by (auto simp add: acquire_def Let_def kept_def W_def)
    define oldest where "oldest = Min (set kept)"
    have old_in: "oldest \<in> set kept" using ne by (simp add: oldest_def)
    then have old_lt: "now - oldest < W" by (simp add: kept_def)
    have self': "self' = self\<lparr>requests := (requests self)(key := kept @ [now])\<rparr>"
      and w: "w = W - (now - oldest)"
      using assms(1) True ne old_lt
      by (auto simp add: acquire_def Let_def kept_def[symmetric] W_def[symmetric] oldest_def[symmetric])
    have "length (filter (\<lambda>x. now + w - x < W) kept) < length kept"
      using old_in w by (intro length_filter_less[of oldest]) auto
    then have "length (in_window self' key (now + w)) \<le> length kept"
      by (simp add: in_window_def self' W_def[symmetric])
    then show ?thesis using kept_le assms(3) by linarith
  qed
qed

lemma acquire_within_limit:
  assumes "acquire self key now = (self', Inr w)" and "t0 \<le> now" and "within_limit self t0"
  shows "within_limit self' (now + w)"
proof -
  have cfg: "max_requests self' = max_requests self" "time_window self' = time_window self"
    using acquire_config[OF assms(1)] by simp_all
  have w0: "0 \<le> w" using assms(1) by (auto simp add: acquire_def Let_def split: if_splits)
  { fix k
    have "int (length (in_window self' k (now + w))) \<le> max_requests self'"
    proof (cases "k = key")
      case True
      then show ?thesis
        using acquire_same_key[OF assms(1,2)] assms(3) cfg by (simp add: within_limit_def)
    next
      case False
      have "in_window self' k (now + w) = in_window self k (now + w)"
        using acquire_other_key[OF assms(1) False] cfg by (simp add: in_window_def)
      moreover have "length (in_window self k (now + w)) \<le> length (in_window self k t0)"
        using assms(2) w0 by (intro in_window_antitone) linarith
      moreover have "int (length (in_window self k t0)) \<le> max_requests self"
        using assms(3) by (simp add: within_limit_def)
      ultimately show ?thesis using cfg by simp
    qed }
  then show ?thesis by (simp add: within_limit_def)
qed

lemma acquire_seq_within_limit:
  assumes "nonneg_gaps cs" and "within_limit self clock"
    and "acquire_seq self clock cs = (self', Inr clock')"
  shows "within_limit self' clock' \<and> max_requests self' = max_requests self"
  using assms
proof (induction cs arbitrary: self clock)
  case Nil
  then show ?case by simp
next
  case (Cons c cs)
  obtain key gap where c: "c = (key, gap)" by (cases c)
  obtain s1 r1 where a: "acquire self key (clock + gap) = (s1, r1)" by (cases "acquire self key (clock + gap)")
  from Cons.prems(3) c a obtain w where r1: "r1 = Inr w"
    and rest: "acquire_seq s1 (clock + gap + w) cs = (self', Inr clock')"
    by (cases r1) auto
  have gap: "0 \<le> gap" and gaps: "nonneg_gaps cs"
    using Cons.prems(1) c by (simp_all add: nonneg_gaps_def)
  have "within_limit s1 (clock + gap + w)"
    using acquire_within_limit[OF a[unfolded r1] _ Cons.prems(2)] gap by simp
  from Cons.IH[OF gaps this rest] acquire_config[OF a] show ?case by simp
qed

lemma acquire_first_negative:
  assumes "mr < 0"
  shows "\<exists>s e. acquire (RateLimiter mr tw) key now = (s, Inl e)"
  using assms by (simp add: acquire_def RateLimiter_def Let_def)


lemma within_limit_initial:
  assumes "0 \<le> mr"
  shows "within_limit (RateLimiter mr tw) clock"
  using assms by (simp add: within_limit_def in_window_def RateLimiter_def)

lemma acquire_seq_from_new:
  assumes "nonneg_gaps cs" and "cs \<noteq> []"
    and "acquire_seq (RateLimiter mr tw) clock cs = (self', Inr clock')"
  shows "int (length (in_window self' key clock')) \<le> mr"
proof (cases "0 \<le> mr")
  case True
  from acquire_seq_within_limit[OF assms(1) within_limit_initial[OF True] assms(3)]
  show ?thesis by (auto simp add: within_limit_def RateLimiter_def)
next
  case False
  obtain k gap rest where cs: "cs = (k, gap) # rest"
    using assms(2) by (cases cs) auto
  from False obtain s e where "acquire (RateLimiter mr tw) k (clock + gap) = (s, Inl e)"
    using acquire_first_negative[of mr tw k "clock + gap"] by auto
  then have "acquire_seq (RateLimiter mr tw) clock cs = (s, Inl e)"
    by (simp add: cs)
  then show ?thesis using assms(3) by simp
qed

lemma four_calls:
  assumes "0 \<le> g2" "0 \<le> g3" "0 \<le> g4" "g2 + g3 + g4 < 60"
  shows "acquire_seq (RateLimiter 3 60) t1 [(key, 0), (key, g2), (key, g3)] =
           (\<lparr>max_requests = 3, time_window = 60,
             requests = (\<lambda>k. [])(key := [t1, t1 + g2, t1 + g2 + g3])\<rparr>, Inr (t1 + g2 + g3))"
    and "acquire_seq (RateLimiter 3 60) t1 [(key, 0), (key, g2), (key, g3), (key, g4)] =
           (\<lparr>max_requests = 3, time_window = 60,
             requests = (\<lambda>k. [])(key := [t1, t1 + g2, t1 + g2 + g3, t1 + g2 + g3 + g4])\<rparr>,
            Inr (t1 + 60))"
  using assms by (simp_all add: acquire_def RateLimiter_def Let_def min_def add.assoc)

text \<open>
  Claim C2, as amended (rate limiter ceiling). For one caller issuing calls in sequence on
  a new limiter: when the last call returns, at most \<open>max_requests\<close> of the timestamps
  stored for any key lie in the window that trails the time of return, by the test the
  purge itself applies. With \<open>max_requests = 3\<close> and \<open>time_window = 60\<close>, four calls on one
  key at \<open>t1\<close>, \<open>t1 + g2\<close>, \<open>t1 + g2 + g3\<close> and \<open>t1 + g2 + g3 + g4\<close>, less than 60 seconds
  in all: the first three do not sleep, the fourth returns at \<open>t1 + 60\<close>, the moment the
  first timestamp leaves the window; the list then stores all four timestamps, of which at
  most three (and not the first) are in the window.
\<close>

theorem C2_window_ceiling:
  "(nonneg_gaps cs \<and> cs \<noteq> [] \<and> acquire_seq (RateLimiter mr tw) clock cs = (self', Inr clock')
      \<longrightarrow> int (length (in_window self' key clock')) \<le> mr)
   \<and> (0 \<le> g2 \<and> 0 \<le> g3 \<and> 0 \<le> g4 \<and> g2 + g3 + g4 < 60 \<longrightarrow>
        snd (acquire_seq (RateLimiter 3 60) t1 [(k, 0), (k, g2), (k, g3)]) = Inr (t1 + g2 + g3)
        \<and> snd (acquire_seq (RateLimiter 3 60) t1 [(k, 0), (k, g2), (k, g3), (k, g4)]) = Inr (t1 + 60)
        \<and> requests (fst (acquire_seq (RateLimiter 3 60) t1 [(k, 0), (k, g2), (k, g3), (k, g4)])) k
            = [t1, t1 + g2, t1 + g2 + g3, t1 + g2 + g3 + g4]
        \<and> t1 \<notin> set (in_window
              (fst (acquire_seq (RateLimiter 3 60) t1 [(k, 0), (k, g2), (k, g3), (k, g4)])) k (t1 + 60))
        \<and> length (in_window
              (fst (acquire_seq (RateLimiter 3 60) t1 [(k, 0), (k, g2), (k, g3), (k, g4)])) k (t1 + 60))
            \<le> 3)"
proof -
  have a: "nonneg_gaps cs \<and> cs \<noteq> [] \<and> acquire_seq (RateLimiter mr tw) clock cs = (self', Inr clock')
      \<longrightarrow> int (length (in_window self' key clock')) \<le> mr"
    using acquire_seq_from_new by blast
  have b: "0 \<le> g2 \<and> 0 \<le> g3 \<and> 0 \<le> g4 \<and> g2 + g3 + g4 < 60 \<longrightarrow>
        snd (acquire_seq (RateLimiter 3 60) t1 [(k, 0), (k, g2), (k, g3)]) = Inr (t1 + g2 + g3)
        \<and> snd (acquire_seq (RateLimiter 3 60) t1 [(k, 0), (k, g2), (k, g3), (k, g4)]) = Inr (t1 + 60)
        \<and> requests (fst (acquire_seq (RateLimiter 3 60) t1 [(k, 0), (k, g2), (k, g3), (k, g4)])) k
            = [t1, t1 + g2, t1 + g2 + g3, t1 + g2 + g3 + g4]
        \<and> t1 \<notin> set (in_window
              (fst (acquire_seq (RateLimiter 3 60) t1 [(k, 0), (k, g2), (k, g3), (k, g4)])) k (t1 + 60))
        \<and> length (in_window
              (fst (acquire_seq (RateLimiter 3 60) t1 [(k, 0), (k, g2), (k, g3), (k, g4)])) k (t1 + 60))
            \<le> 3"
  proof (intro impI, elim conjE)
    assume h: "0 \<le> g2" "0 \<le> g3" "0 \<le> g4" "g2 + g3 + g4 < 60"
    note f = four_calls[OF h, of t1 k]
    show "snd (acquire_seq (RateLimiter 3 60) t1 [(k, 0), (k, g2), (k, g3)]) = Inr (t1 + g2 + g3)
        \<and> snd (acquire_seq (RateLimiter 3 60) t1 [(k, 0), (k, g2), (k, g3), (k, g4)]) = Inr (t1 + 60)
        \<and> requests (fst (acquire_seq (RateLimiter 3 60) t1 [(k, 0), (k, g2), (k, g3), (k, g4)])) k
            = [t1, t1 + g2, t1 + g2 + g3, t1 + g2 + g3 + g4]
        \<and> t1 \<notin> set (in_window
              (fst (acquire_seq (RateLimiter 3 60) t1 [(k, 0), (k, g2), (k, g3), (k, g4)])) k (t1 + 60))
        \<and> length (in_window
              (fst (acquire_seq (RateLimiter 3 60) t1 [(k, 0), (k, g2), (k, g3), (k, g4)])) k (t1 + 60))
            \<le> 3"
      unfolding f using h by (simp add: in_window_def)
  qed
  from a b show ?thesis by blast
qed

text \<open>The amended claim C2 at four calls on the key "default", at the times 0, 1, 2 and 3.\<close>

theorem C2_window_ceiling_witness:
  "nonneg_gaps [(''default'', 0), (''default'', 1), (''default'', 1), (''default'', 1)]
   \<and> acquire_seq (RateLimiter 3 60) 0
        [(''default'', 0), (''default'', 1), (''default'', 1), (''default'', 1)]
       = (\<lparr>max_requests = 3, time_window = 60,
            requests = (\<lambda>k. [])(''default'' := [0, 1, 2, 3])\<rparr>, Inr 60)
   \<and> in_window \<lparr>max_requests = 3, time_window = 60,
            requests = (\<lambda>k. [])(''default'' := [0, 1, 2, 3])\<rparr> ''default'' 60 = [1, 2, 3]
   \<and> int (length (in_window \<lparr>max_requests = 3, time_window = 60,
            requests = (\<lambda>k. [])(''default'' := [0, 1, 2, 3])\<rparr> ''default'' 60)) \<le> 3
   \<and> snd (acquire_seq (RateLimiter 3 60) 0
        [(''default'', 0), (''default'', 1), (''default'', 1)]) = Inr 2"
proof -
  have g: "nonneg_gaps [(''default'', 0), (''default'', 1), (''default'', 1), (''default'', 1)]"
    by (simp add: nonneg_gaps_def)
  have r: "acquire_seq (RateLimiter 3 60) 0
        [(''default'', 0), (''default'', 1), (''default'', 1), (''default'', 1)]
       = (\<lparr>max_requests = 3, time_window = 60,
            requests = (\<lambda>k. [])(''default'' := [0, 1, 2, 3])\<rparr>, Inr 60)"
    by (simp add: acquire_def RateLimiter_def Let_def)
  show ?thesis
    using g r
      C2_window_ceiling[of "[(''default'', 0), (''default'', 1), (''default'', 1), (''default'', 1)]"
        3 60 0 "\<lparr>max_requests = 3, time_window = 60,
            requests = (\<lambda>k. [])(''default'' := [0, 1, 2, 3])\<rparr>" 60 "''default''" 1 1 1 0 "''default''"]
    by (simp add: in_window_def)
qed

text \<open>
  Claim C2 as stated fails for the stored list: with \<open>max_requests = 3\<close> and
  \<open>time_window = 60\<close>, after the fourth of four calls at the times 0, 1, 2 and 3 has
  returned (at time 60), the list of the key holds the four timestamps 0, 1, 2 and 3. The
  purge precedes the sleep, and the timestamp appended after it is the one read before.
\<close>

theorem C2_four_timestamps_retained:
  "snd (acquire_seq (RateLimiter 3 60) 0
          [(''default'', 0), (''default'', 1), (''default'', 1), (''default'', 1)]) = Inr 60
   \<and> requests (fst (acquire_seq (RateLimiter 3 60) 0
          [(''default'', 0), (''default'', 1), (''default'', 1), (''default'', 1)])) ''default''
       = [0, 1, 2, 3]
   \<and> \<not> int (length (requests (fst (acquire_seq (RateLimiter 3 60) 0
          [(''default'', 0), (''default'', 1), (''default'', 1), (''default'', 1)])) ''default'')) \<le> 3"
  by (simp add: acquire_def RateLimiter_def Let_def)

section \<open>The classifier\<close>

text \<open>What the three loops compute, for any behaviour of the two \<^verbatim>\<open>re\<close> functions.\<close>

lemma check_patterns_eq:
  "check_patterns re ps ml (m, c) =
     (m + int (length (filter (\<lambda>p. re_search re p ml) ps)),
      c + 20 * int (length (filter (\<lambda>p. re_search re p ml) ps)))"
  by (induction ps arbitrary: m c) simp_all

lemma extract_entities_eq:
  "extract_entities re ps msg (es, c) =
     (es @ concat (map (\<lambda>p. map entity_of (re_findall re p msg)) ps),
      c + 15 * int (length (filter (\<lambda>p. re_findall re p msg \<noteq> []) ps)))"
  by (induction ps arbitrary: es c) (simp_all add: Let_def)

lemma analyze_types_eq:
  "analyze_types re table msg (lower msg) acc = acc @ claimed_detections re table msg"
proof (induction table arbitrary: acc)
  case Nil
  then show ?case by (simp add: claimed_detections_def)
next
  case (Cons entry table)
  obtain ctype config where e: "entry = (ctype, config)" by (cases entry)
  show ?case
    unfolding e
    by (simp add: Cons.IH check_patterns_eq extract_entities_eq claimed_detections_def
          claimed_detection_def trigger_count_def entity_hits_def found_entities_def)
qed

lemma sort_detections_sorted:
  "sorted_wrt (\<lambda>a b. d_confidence b \<le> d_confidence a) (sort_detections ds)"
proof -
  have "sorted (map (\<lambda>x. - d_confidence x) (sort_detections ds))"
    by (simp add: sort_detections_def)
  then show ?thesis by (simp add: sorted_map)
qed

lemma sort_detections_set: "set (sort_detections ds) = set ds"
  by (simp add: sort_detections_def)

lemma sort_detections_length: "length (sort_detections ds) = length ds"
  by (simp add: sort_detections_def)

lemma detect_str:
  "detect_content_intent re table now (Str msg) =
     (let ds = sort_detections (claimed_detections re table msg);
          primary = primary_detection ds
      in \<lparr>has_visual_content = (primary \<noteq> None),
          primary_content_type = (case primary of Some d \<Rightarrow> d_content_type d | None \<Rightarrow> ''text''),
          r_confidence = (case primary of Some d \<Rightarrow> d_confidence d | None \<Rightarrow> 0),
          r_entities = (case primary of Some d \<Rightarrow> d_entities d | None \<Rightarrow> []),
          all_detections = Some ds, error_text = None, timestamp = now,
          message_length = Some (length msg)\<rparr>)"
  by (simp add: detect_content_intent_def detect_body_def Let_def analyze_types_eq)

text \<open>
  Claim C3 (the scoring rule). For every message, every pattern table and every behaviour
  of \<^verbatim>\<open>re.search\<close> and \<^verbatim>\<open>re.findall\<close>: the detections returned are those of the
  rule (for each content type with at least one matching trigger pattern, in the table's
  order: 20 per trigger pattern matching the lowercased message plus 15 per entity pattern
  with a match, capped at 100, with the first 3 captured entities), sorted by descending
  confidence, the sort only reordering them. The result has visual content if and only if
  there is a detection and the first, top-scoring one has a confidence of at least 40; it
  then carries that detection's type, confidence and entities, and otherwise the type
  "text", the confidence 0 and no entities.
\<close>

theorem C3_scoring_rule:
  "all_detections (detect_content_intent re table now (Str msg))
     = Some (sort_detections (claimed_detections re table msg))
   \<and> sorted_wrt (\<lambda>a b. d_confidence b \<le> d_confidence a)
        (sort_detections (claimed_detections re table msg))
   \<and> set (sort_detections (claimed_detections re table msg))
        = set (claimed_detections re table msg)
   \<and> length (sort_detections (claimed_detections re table msg))
        = length (claimed_detections re table msg)
   \<and> has_visual_content (detect_content_intent re table now (Str msg))
        = (sort_detections (claimed_detections re table msg) \<noteq> []
           \<and> 40 \<le> d_confidence (hd (sort_detections (claimed_detections re table msg))))
   \<and> (has_visual_content (detect_content_intent re table now (Str msg)) \<longrightarrow>
        primary_content_type (detect_content_intent re table now (Str msg))
          = d_content_type (hd (sort_detections (claimed_detections re table msg)))
        \<and> r_confidence (detect_content_intent re table now (Str msg))
          = d_confidence (hd (sort_detections (claimed_detections re table msg)))
        \<and> r_entities (detect_content_intent re table now (Str msg))
          = d_entities (hd (sort_detections (claimed_detections re table msg))))
   \<and> (\<not> has_visual_content (detect_content_intent re table now (Str msg)) \<longrightarrow>
        primary_content_type (detect_content_intent re table now (Str msg)) = ''text''
        \<and> r_confidence (detect_content_intent re table now (Str msg)) = 0
        \<and> r_entities (detect_content_intent re table now (Str msg)) = [])"
proof -
  have shape: "sorted_wrt (\<lambda>a b. d_confidence b \<le> d_confidence a)
        (sort_detections (claimed_detections re table msg))
   \<and> set (sort_detections (claimed_detections re table msg))
        = set (claimed_detections re table msg)
   \<and> length (sort_detections (claimed_detections re table msg))
        = length (claimed_detections re table msg)"
    by (simp add: sort_detections_sorted sort_detections_set sort_detections_length)
  have result: "all_detections (detect_content_intent re table now (Str msg))
     = Some (sort_detections (claimed_detections re table msg))
   \<and> has_visual_content (detect_content_intent re table now (Str msg))
        = (sort_detections (claimed_detections re table msg) \<noteq> []
           \<and> 40 \<le> d_confidence (hd (sort_detections (claimed_detections re table msg))))
   \<and> (has_visual_content (detect_content_intent re table now (Str msg)) \<longrightarrow>
        primary_content_type (detect_content_intent re table now (Str msg))
          = d_content_type (hd (sort_detections (claimed_detections re table msg)))
        \<and> r_confidence (detect_content_intent re table now (Str msg))
          = d_confidence (hd (sort_detections (claimed_detections re table msg)))
        \<and> r_entities (detect_content_intent re table now (Str msg))
          = d_entities (hd (sort_detections (claimed_detections re table msg))))
   \<and> (\<not> has_visual_content (detect_content_intent re table now (Str msg)) \<longrightarrow>
        primary_content_type (detect_content_intent re table now (Str msg)) = ''text''
        \<and> r_confidence (detect_content_intent re table now (Str msg)) = 0
        \<and> r_entities (detect_content_intent re table now (Str msg)) = [])"
    by (cases "sort_detections (claimed_detections re table msg)")
       (simp_all add: detect_str Let_def primary_detection_def)
  from shape result show ?thesis by blast
qed

text \<open>
  The classifier, with the pattern table and the model of \<^verbatim>\<open>re\<close>, on the two messages
  of the specification's threshold test.
\<close>

lemma chart_message:
  "content_detection_tool ''2025-01-01T00:00:00'' (Str ''show me a chart of bitcoin price trends'') =
   \<lparr>has_visual_content = True, primary_content_type = ''chart'',
    r_confidence = 70, r_entities = [''show'', ''me'', ''chart''],
    all_detections =
      Some
       [\<lparr>d_content_type = ''chart'', d_confidence = 70,
           d_entities = [''show'', ''me'', ''chart''],
           pattern_matches = 2\<rparr>],
    error_text = None, timestamp = ''2025-01-01T00:00:00'', message_length = Some 39\<rparr>"
  by code_simp

lemma text_message:
  "content_detection_tool ''2025-01-01T00:00:00'' (Str ''what is the capital of France'') =
   \<lparr>has_visual_content = False, primary_content_type = ''text'',
    r_confidence = 0, r_entities = [], all_detections = Some [],
    error_text = None, timestamp = ''2025-01-01T00:00:00'', message_length = Some 29\<rparr>"
  by code_simp


text \<open>Claim C3 at these two messages: one result with visual content, one without.\<close>

theorem C3_scoring_rule_witness:
  "has_visual_content
     (content_detection_tool ''2025-01-01T00:00:00'' (Str ''show me a chart of bitcoin price trends''))
   \<and> all_detections
     (content_detection_tool ''2025-01-01T00:00:00'' (Str ''show me a chart of bitcoin price trends''))
     = Some (sort_detections (claimed_detections python_re content_patterns
               ''show me a chart of bitcoin price trends''))
   \<and> d_content_type (hd (sort_detections (claimed_detections python_re content_patterns
               ''show me a chart of bitcoin price trends''))) = ''chart''
   \<and> d_confidence (hd (sort_detections (claimed_detections python_re content_patterns
               ''show me a chart of bitcoin price trends''))) = 70
   \<and> \<not> has_visual_content
     (content_detection_tool ''2025-01-01T00:00:00'' (Str ''what is the capital of France''))
   \<and> sort_detections (claimed_detections python_re content_patterns
               ''what is the capital of France'') = []
   \<and> primary_content_type
     (content_detection_tool ''2025-01-01T00:00:00'' (Str ''what is the capital of France''))
     = ''text''"
proof -
  note chart = C3_scoring_rule[of python_re content_patterns "''2025-01-01T00:00:00''"
          "''show me a chart of bitcoin price trends''"]
  note plain = C3_scoring_rule[of python_re content_patterns "''2025-01-01T00:00:00''"
          "''what is the capital of France''"]
  have rc: "detect_content_intent python_re content_patterns ''2025-01-01T00:00:00''
              (Str ''show me a chart of bitcoin price trends'') =
            \<lparr>has_visual_content = True, primary_content_type = ''chart'',
             r_confidence = 70, r_entities = [''show'', ''me'', ''chart''],
             all_detections =
               Some [\<lparr>d_content_type = ''chart'', d_confidence = 70,
                      d_entities = [''show'', ''me'', ''chart''], pattern_matches = 2\<rparr>],
             error_text = None, timestamp = ''2025-01-01T00:00:00'', message_length = Some 39\<rparr>"
    using chart_message unfolding content_detection_tool_def .
  have rt: "detect_content_intent python_re content_patterns ''2025-01-01T00:00:00''
              (Str ''what is the capital of France'') =
            \<lparr>has_visual_content = False, primary_content_type = ''text'',
             r_confidence = 0, r_entities = [], all_detections = Some [],
             error_text = None, timestamp = ''2025-01-01T00:00:00'', message_length = Some 29\<rparr>"
    using text_message unfolding content_detection_tool_def .
  have c: "sort_detections (claimed_detections python_re content_patterns
               ''show me a chart of bitcoin price trends'')
           = [\<lparr>d_content_type = ''chart'', d_confidence = 70,
               d_entities = [''show'', ''me'', ''chart''], pattern_matches = 2\<rparr>]"
    using chart[THEN conjunct1] unfolding rc by simp
  have t: "sort_detections (claimed_detections python_re content_patterns
               ''what is the capital of France'') = []"
    using plain[THEN conjunct1] unfolding rt by simp
  show ?thesis
    unfolding content_detection_tool_def rc rt c t by simp
qed

text \<open>
  Claim C6 (classifier threshold test). The message "show me a chart of bitcoin price
  trends" is classified as a chart with confidence 70, and "what is the capital of France"
  as text with confidence 0, as the claim says. The entity list of the first is
  "show", "me", "chart" and holds no bitcoin or crypto token: the pattern commented as
  stock symbols, \<^verbatim>\<open>\b([A-Z]{2,5})\b\<close>, is run with \<^verbatim>\<open>re.IGNORECASE\<close> and so captures
  every word of two to five letters; it comes first, and only 3 entities are kept.
\<close>

theorem C6_entities_without_bitcoin:
  "primary_content_type
     (content_detection_tool ''2025-01-01T00:00:00'' (Str ''show me a chart of bitcoin price trends''))
     = ''chart''
   \<and> r_confidence
     (content_detection_tool ''2025-01-01T00:00:00'' (Str ''show me a chart of bitcoin price trends''))
     = 70
   \<and> r_entities
     (content_detection_tool ''2025-01-01T00:00:00'' (Str ''show me a chart of bitcoin price trends''))
     = [''show'', ''me'', ''chart'']
   \<and> set (r_entities
     (content_detection_tool ''2025-01-01T00:00:00'' (Str ''show me a chart of bitcoin price trends'')))
     \<inter> set [''bitcoin'', ''btc'', ''ethereum'', ''eth'', ''crypto''] = {}
   \<and> primary_content_type
     (content_detection_tool ''2025-01-01T00:00:00'' (Str ''what is the capital of France''))
     = ''text''
   \<and> r_confidence
     (content_detection_tool ''2025-01-01T00:00:00'' (Str ''what is the capital of France''))
     = 0"
  by (simp add: chart_message text_message)

text \<open>The result depends on the clock only through its timestamp.\<close>

lemma detect_timestamp:
  "detect_content_intent re table now message
     = (detect_content_intent re table now' message)\<lparr>timestamp := now\<rparr>"
  by (cases message) (simp_all add: detect_content_intent_def detect_body_def Let_def)

text \<open>
  Claim C9, as amended (determinism, no failure). Two invocations on the same message
  return results that agree in every entry but the timestamp, which is the clock reading
  of the invocation. The method never raises: whenever its body raises an exception, it
  returns the text default (type "text", confidence 0, no entities) with the exception's
  text; this is so for the malformed message \<^verbatim>\<open>None\<close>.
\<close>

theorem C9_deterministic_but_for_timestamp:
  "detect_content_intent re table now1 message
     = (detect_content_intent re table now2 message)\<lparr>timestamp := now1\<rparr>
   \<and> timestamp (detect_content_intent re table now1 message) = now1
   \<and> (\<forall>e. detect_body re table now1 message = Inl e \<longrightarrow>
        detect_content_intent re table now1 message =
          \<lparr>has_visual_content = False, primary_content_type = ''text'', r_confidence = 0,
           r_entities = [], all_detections = None, error_text = Some (str e),
           timestamp = now1, message_length = None\<rparr>)
   \<and> primary_content_type (detect_content_intent re table now1 NoneValue) = ''text''
   \<and> r_confidence (detect_content_intent re table now1 NoneValue) = 0
   \<and> r_entities (detect_content_intent re table now1 NoneValue) = []"
proof -
  have t: "timestamp (detect_content_intent re table now1 message) = now1"
    by (cases message) (simp_all add: detect_content_intent_def detect_body_def Let_def)
  show ?thesis
    using detect_timestamp[of re table now1 message now2] t
    by (simp add: detect_content_intent_def detect_body_def)
qed

text \<open>The amended claim C9 at the message \<^verbatim>\<open>None\<close>, on which the body raises a TypeError.\<close>

theorem C9_deterministic_but_for_timestamp_witness:
  "detect_body python_re content_patterns ''2025-01-01T00:00:00'' NoneValue =
     Inl (Exn TypeError ([CHR 0x27] @ ''NoneType'' @ [CHR 0x27] @ '' object is not subscriptable''))
   \<and> content_detection_tool ''2025-01-01T00:00:00'' NoneValue =
       \<lparr>has_visual_content = False, primary_content_type = ''text'', r_confidence = 0,
        r_entities = [], all_detections = None,
        error_text = Some ([CHR 0x27] @ ''NoneType'' @ [CHR 0x27] @ '' object is not subscriptable''),
        timestamp = ''2025-01-01T00:00:00'', message_length = None\<rparr>"
  using C9_deterministic_but_for_timestamp[of python_re content_patterns "''2025-01-01T00:00:00''"
          NoneValue "''2025-01-01T00:00:00''"]
  by (simp add: content_detection_tool_def detect_body_def)

text \<open>
  Claim C9 as stated fails: two invocations on the same message, one second apart, return
  different results, since each result holds the time of its invocation.
\<close>

theorem C9_timestamps_differ:
  "content_detection_tool ''2025-01-01T00:00:00'' (Str ''what is the capital of France'')
     \<noteq> content_detection_tool ''2025-01-01T00:00:01'' (Str ''what is the capital of France'')"
proof
  assume "content_detection_tool ''2025-01-01T00:00:00'' (Str ''what is the capital of France'')
     = content_detection_tool ''2025-01-01T00:00:01'' (Str ''what is the capital of France'')"
  then have "timestamp (content_detection_tool ''2025-01-01T00:00:00'' (Str ''what is the capital of France''))
     = timestamp (content_detection_tool ''2025-01-01T00:00:01'' (Str ''what is the capital of France''))"
    by simp
  then show False
    by (simp add: content_detection_tool_def detect_content_intent_def detect_body_def Let_def)
qed

end
